theory Spec2Isabelle
  imports Main
begin

section \<open>JavaScript values\<close>

text \<open>
  The values a request body, a query string or a database row can hold. Arrays are
  not modelled. Reading a property that an object does not have gives
  \<open>Undefined\<close>, as in JavaScript.
\<close>

datatype jsval = Undefined | Null | Bool bool | Num int | Str string | Obj "(string \<times> jsval) list"

text \<open>\<open>req.body\<close> and \<open>req.query\<close>: an absent key reads \<open>Undefined\<close>.\<close>

type_synonym obj = "string \<Rightarrow> jsval"

definition no_keys :: obj where
  "no_keys = (\<lambda>k. Undefined)"

text \<open>The truthiness test of \<open>!x\<close> and \<open>x ? a : b\<close>.\<close>

fun truthy :: "jsval \<Rightarrow> bool" where
  "truthy Undefined = False"
| "truthy Null = False"
| "truthy (Bool b) = b"
| "truthy (Num n) = (n \<noteq> 0)"
| "truthy (Str s) = (s \<noteq> [])"
| "truthy (Obj kv) = True"

text \<open>\<open>typeof x === "string"\<close>.\<close>

fun is_string :: "jsval \<Rightarrow> bool" where
  "is_string (Str s) = True"
| "is_string v = False"

text \<open>Property access \<open>x.k\<close> on a value that is neither undefined nor null.\<close>

fun js_member :: "jsval \<Rightarrow> string \<Rightarrow> jsval" where
  "js_member (Obj kv) k = (case map_of kv k of Some v \<Rightarrow> v | None \<Rightarrow> Undefined)"
| "js_member v k = Undefined"

definition digit :: "nat \<Rightarrow> char" where
  "digit d = ''0123456789'' ! d"

fun decimal :: "nat \<Rightarrow> string" where
  "decimal n = (if n < 10 then [digit n] else decimal (n div 10) @ [digit (n mod 10)])"

declare decimal.simps [simp del]

text \<open>The string a template literal \<open>`${x}`\<close> produces.\<close>

fun js_string :: "jsval \<Rightarrow> string" where
  "js_string Undefined = ''undefined''"
| "js_string Null = ''null''"
| "js_string (Bool b) = (if b then ''true'' else ''false'')"
| "js_string (Num n) = (if n < 0 then ''-'' @ decimal (nat (- n)) else decimal (nat n))"
| "js_string (Str s) = s"
| "js_string (Obj kv) = ''[object Object]''"

section \<open>Errors, responses and the collaborators\<close>

text \<open>
  An error thrown by a collaborator (mysql2, bcrypt, jsonwebtoken, fs, nodemailer,
  multer) or by the runtime (TypeError, ReferenceError). The catch blocks of the
  handlers look at one thing only: whether the error object has a \<open>response\<close>
  property.
\<close>

datatype fault = Fault (has_response: bool) (reason: string)

text \<open>
  One entry of \<open>error.errors\<close> of a ZodError, already mapped to
  \<open>{field: err.path[0], message: err.message}\<close>. \<open>Default\<close> stands for a message
  text that zod chooses itself (a value of the wrong type, a value outside an enum).
\<close>

datatype message = Custom string | Default

type_synonym issue = "string \<times> message"

datatype thrown = ZodError "issue list" | Failure fault

type_synonym row = "(string \<times> jsval) list"

definition column :: "row \<Rightarrow> string \<Rightarrow> jsval" where
  "column r k = (case map_of r k of Some v \<Rightarrow> v | None \<Rightarrow> Undefined)"

text \<open>What a statement resolves to: the rows of a SELECT, or the header of a write
  with its \<open>affectedRows\<close>.\<close>

datatype qresult = Rows "row list" | Header (affectedRows: nat)

datatype json =
    StatusMessage string string
  | StatusMessageToken string string string
  | StatusErrors string "issue list"
  | StatusError string string
  | StatusResults string qresult
  | ErrorOnly string
  | MessageOnly string

record response =
  status :: nat
  json :: json

definition respond :: "nat \<Rightarrow> json \<Rightarrow> response" where
  "respond c j = \<lparr>status = c, json = j\<rparr>"

text \<open>A statement as the handlers hand it to \<open>connection.query\<close>: the SQL text with
  its placeholders, and the values bound to them.\<close>

record stmt =
  sql :: string
  params :: "jsval list"

type_synonym database = "string \<Rightarrow> row list option"

record mail =
  sender :: jsval
  recipient :: jsval
  subject :: string
  html :: string

text \<open>
  The collaborators of the server, none of them code of this repository: zod's
  \<open>email\<close> and \<open>url\<close> checks, the connection pool and the MySQL server behind it,
  \<open>bcrypt.compare\<close>, \<open>jwt.sign\<close> with the configured secret, \<open>fs.readFile\<close>,
  \<open>String.prototype.replace\<close> and the mail transport. Every theorem below holds
  for all of them.
\<close>

record env =
  zod_email :: "string \<Rightarrow> bool"
  zod_url :: "string \<Rightarrow> bool"
  pool_up :: bool
  mysql :: "stmt \<Rightarrow> database \<Rightarrow> fault + (qresult \<times> database)"
  bcrypt_compare :: "jsval \<Rightarrow> jsval \<Rightarrow> fault + bool"
  jwt_sign :: "jsval \<Rightarrow> string \<Rightarrow> fault + string"
  readFile :: "string \<Rightarrow> fault + string"
  str_replace :: "string \<Rightarrow> string \<Rightarrow> jsval \<Rightarrow> string"
  sendMail :: "mail \<Rightarrow> fault option"
  EMAIL_USER :: jsval

text \<open>
  The state a request can change: the database, the statements sent to it so far,
  the number of pooled connections that are held, the files under \<open>public/\<close> and
  the mails handed to the transport.
\<close>

record state =
  db :: database
  statements :: "stmt list"
  leased :: nat
  public_dir :: "string list"
  outbox :: "mail list"

section \<open>Validation schemas (zod)\<close>

definition z_string :: "string \<Rightarrow> (string \<Rightarrow> issue list) \<Rightarrow> jsval \<Rightarrow> issue list" where
  "z_string field checks v = (case v of Str s \<Rightarrow> checks s | _ \<Rightarrow> [(field, Default)])"

definition z_min1 :: "string \<Rightarrow> string \<Rightarrow> string \<Rightarrow> issue list" where
  "z_min1 field m s = (if length s < 1 then [(field, Custom m)] else [])"

definition z_format :: "(string \<Rightarrow> bool) \<Rightarrow> string \<Rightarrow> string \<Rightarrow> string \<Rightarrow> issue list" where
  "z_format ok field m s = (if ok s then [] else [(field, Custom m)])"

definition z_any :: "string \<Rightarrow> issue list" where
  "z_any s = []"

text \<open>\<open>z.string().optional()\<close>.\<close>

definition z_optional_string :: "string \<Rightarrow> jsval \<Rightarrow> issue list" where
  "z_optional_string field v = (case v of Undefined \<Rightarrow> [] | _ \<Rightarrow> z_string field z_any v)"

text \<open>\<open>z.enum(values, "...")\<close>: zod 3, whose \<open>error.errors\<close> the handlers read,
  ignores a bare string as second argument, so the message is zod's own.\<close>

definition z_enum :: "string \<Rightarrow> string list \<Rightarrow> jsval \<Rightarrow> issue list" where
  "z_enum field allowed v = (case v of Str s \<Rightarrow> (if s \<in> set allowed then [] else [(field, Default)]) | _ \<Rightarrow> [(field, Default)])"

text \<open>\<open>z.object({...}).parse(input)\<close>: throws a ZodError holding every issue, or
  returns the input stripped to the keys of the schema.\<close>

definition z_object :: "string list \<Rightarrow> issue list \<Rightarrow> obj \<Rightarrow> thrown + obj" where
  "z_object keys issues input =
     (if issues = [] then Inr (\<lambda>k. if k \<in> set keys then input k else Undefined)
      else Inl (ZodError issues))"

definition formSchema_issues :: "env \<Rightarrow> obj \<Rightarrow> issue list" where
  "formSchema_issues env input =
     z_string ''fullName'' (z_min1 ''fullName'' ''Full Name is required'') (input ''fullName'') @
     z_string ''contact''
       (\<lambda>s. z_min1 ''contact'' ''Email Address or Phone Number is required'' s @
            z_format (zod_email env) ''contact'' ''Invalid email format'' s)
       (input ''contact'') @
     z_string ''message'' (z_min1 ''message'' ''Message is required'') (input ''message'')"

definition formSchema :: "env \<Rightarrow> obj \<Rightarrow> thrown + obj" where
  "formSchema env input =
     z_object [''fullName'', ''contact'', ''message''] (formSchema_issues env input) input"

definition loginSchema_issues :: "obj \<Rightarrow> issue list" where
  "loginSchema_issues input =
     z_string ''email'' (z_min1 ''email'' ''Email is required'') (input ''email'') @
     z_string ''password'' (z_min1 ''password'' ''Password is required'') (input ''password'')"

definition loginSchema :: "obj \<Rightarrow> thrown + obj" where
  "loginSchema input = z_object [''email'', ''password''] (loginSchema_issues input) input"

definition schema_issues :: "env \<Rightarrow> obj \<Rightarrow> issue list" where
  "schema_issues env input =
     z_string ''title'' (z_min1 ''title'' ''Title is required'') (input ''title'') @
     z_string ''content'' (z_min1 ''content'' ''Content is required'') (input ''content'') @
     z_string ''link'' (z_format (zod_url env) ''link'' ''Link must be a valid URL'') (input ''link'') @
     z_enum ''category'' [''d-only'', ''d-and-d''] (input ''category'') @
     z_string ''image'' (z_min1 ''image'' ''Image path is required'') (input ''image'')"

definition schema :: "env \<Rightarrow> obj \<Rightarrow> thrown + obj" where
  "schema env input =
     z_object [''title'', ''content'', ''link'', ''category'', ''image'']
       (schema_issues env input) input"

definition editSchema_issues :: "env \<Rightarrow> obj \<Rightarrow> issue list" where
  "editSchema_issues env input =
     z_string ''title'' (z_min1 ''title'' ''Title is required'') (input ''title'') @
     z_string ''content'' (z_min1 ''content'' ''Content is required'') (input ''content'') @
     z_string ''link'' (z_format (zod_url env) ''link'' ''Link must be a valid URL'') (input ''link'') @
     z_enum ''category'' [''d-only'', ''d-and-d''] (input ''category'') @
     z_string ''image'' (z_min1 ''image'' ''Image path is required'') (input ''image'') @
     z_string ''id'' (z_min1 ''id'' ''ID is required'') (input ''id'')"

definition editSchema :: "env \<Rightarrow> obj \<Rightarrow> thrown + obj" where
  "editSchema env input =
     z_object [''title'', ''content'', ''link'', ''category'', ''image'', ''id'']
       (editSchema_issues env input) input"

definition projectSchema_issues :: "obj \<Rightarrow> issue list" where
  "projectSchema_issues input =
     z_optional_string ''pdfFile'' (input ''pdfFile'') @
     z_string ''image'' (z_min1 ''image'' ''Image path is required'') (input ''image'')"

definition projectSchema :: "obj \<Rightarrow> thrown + obj" where
  "projectSchema input = z_object [''pdfFile'', ''image''] (projectSchema_issues input) input"

definition projectEditSchema_issues :: "obj \<Rightarrow> issue list" where
  "projectEditSchema_issues input =
     z_optional_string ''pdfFile'' (input ''pdfFile'') @
     z_string ''image'' (z_min1 ''image'' ''Image path is required'') (input ''image'') @
     z_string ''id'' (z_min1 ''id'' ''ID is required'') (input ''id'')"

definition projectEditSchema :: "obj \<Rightarrow> thrown + obj" where
  "projectEditSchema input =
     z_object [''pdfFile'', ''image'', ''id''] (projectEditSchema_issues input) input"

section \<open>Uploads (multer)\<close>

text \<open>
  A file part of a multipart body, as multer hands it to \<open>fileFilter\<close> and to
  the storage engine. \<open>arrival\<close> is what \<open>Date.now()\<close> returns when the storage
  engine names the part.
\<close>

record upload_part =
  fieldname :: string
  originalname :: string
  mimetype :: string
  arrival :: nat

text \<open>A stored file as the handlers read it: \<open>req.file.filename\<close>.\<close>

record stored_file =
  part :: upload_part
  filename :: string

text \<open>
  Node's \<open>path.extname\<close> (POSIX): the last portion of the path from its last dot
  on; empty when that portion has no dot, when its only dot is its first
  character, or when it is \<open>..\<close>.
\<close>

definition last_portion :: "string \<Rightarrow> string" where
  "last_portion p =
     rev (takeWhile (\<lambda>c. c \<noteq> CHR ''/'') (dropWhile (\<lambda>c. c = CHR ''/'') (rev p)))"

definition path_extname :: "string \<Rightarrow> string" where
  "path_extname p =
     (let c = last_portion p;
          after = takeWhile (\<lambda>x. x \<noteq> CHR ''.'') (rev c)
      in if CHR ''.'' \<in> set c
         then (if Suc (length after) = length c then []
               else if c = ''..'' then []
               else CHR ''.'' # rev after)
         else [])"

text \<open>\<open>toLowerCase\<close> on the ASCII letters.\<close>

definition lower_char :: "char \<Rightarrow> char" where
  "lower_char c =
     (case map_of (zip ''ABCDEFGHIJKLMNOPQRSTUVWXYZ'' ''abcdefghijklmnopqrstuvwxyz'') c of
        Some l \<Rightarrow> l
      | None \<Rightarrow> c)"

definition toLowerCase :: "string \<Rightarrow> string" where
  "toLowerCase s = map lower_char s"

text \<open>
  \<open>RegExp.prototype.test\<close> for a pattern that is an alternation of literals with
  no anchor, such as \<open>/jpeg|jpg|png|gif|pdf/\<close>: true when one of the literals occurs
  somewhere in the string.
\<close>

fun starts_with :: "string \<Rightarrow> string \<Rightarrow> bool" where
  "starts_with [] s = True"
| "starts_with (a # w) [] = False"
| "starts_with (a # w) (c # s) = (a = c \<and> starts_with w s)"

fun occurs_in :: "string \<Rightarrow> string \<Rightarrow> bool" where
  "occurs_in w [] = (w = [])"
| "occurs_in w (c # s) = (starts_with w (c # s) \<or> occurs_in w s)"

definition regex_test :: "string list \<Rightarrow> string \<Rightarrow> bool" where
  "regex_test alternatives s = list_ex (\<lambda>w. occurs_in w s) alternatives"

definition filetypes :: "string list" where
  "filetypes = [''jpeg'', ''jpg'', ''png'', ''gif'', ''pdf'']"

definition fileFilter :: "upload_part \<Rightarrow> fault + bool" where
  "fileFilter file =
     (let extname = regex_test filetypes (toLowerCase (path_extname (originalname file)));
          mimetype_ok = regex_test filetypes (mimetype file)
      in if extname \<and> mimetype_ok then Inr True
         else Inl (Fault False ''Only images and PDFs are allowed''))"

text \<open>The \<open>filename\<close> callback of \<open>multer.diskStorage\<close>; the destination is
  \<open>public/\<close>.\<close>

definition storage_filename :: "upload_part \<Rightarrow> string" where
  "storage_filename file = decimal (arrival file) @ ''_'' @ originalname file"

text \<open>
  multer over the file parts of one request, in order. \<open>limits\<close> holds for each
  declared field how many files it may still take. A part for a field that takes
  no more files aborts the upload; so does a part that \<open>fileFilter\<close> refuses. An
  aborted upload leaves no file of the request behind (multer removes those it had
  already stored), and a part is stored only after \<open>fileFilter\<close> accepted it.
\<close>

definition filesLeft :: "(string \<times> nat) list \<Rightarrow> string \<Rightarrow> nat" where
  "filesLeft limits name = (case map_of limits name of Some n \<Rightarrow> n | None \<Rightarrow> 0)"

definition take_one :: "(string \<times> nat) list \<Rightarrow> string \<Rightarrow> (string \<times> nat) list" where
  "take_one limits name = map (\<lambda>(k, n). if k = name then (k, n - 1) else (k, n)) limits"

fun multer_files :: "(string \<times> nat) list \<Rightarrow> upload_part list \<Rightarrow> fault + stored_file list" where
  "multer_files limits [] = Inr []"
| "multer_files limits (p # ps) =
     (if filesLeft limits (fieldname p) = 0 then Inl (Fault False ''Unexpected field'')
      else (case fileFilter p of
              Inl e \<Rightarrow> Inl e
            | Inr accepted \<Rightarrow>
                (case multer_files (take_one limits (fieldname p)) ps of
                   Inl e \<Rightarrow> Inl e
                 | Inr stored \<Rightarrow>
                     Inr ((if accepted then [\<lparr>part = p, filename = storage_filename p\<rparr>] else [])
                          @ stored))))"

section \<open>Requests and middleware (express)\<close>

text \<open>The body of a request as it arrives: JSON, multipart form data (text fields
  and file parts), or anything else.\<close>

datatype payload = Json obj | Multipart obj "upload_part list" | Other

text \<open>
  The request object the handlers read. \<open>req_files = None\<close> is \<open>req.files\<close> being
  undefined: multer sets it only for a multipart request.
\<close>

record ereq =
  payload :: payload
  body :: obj
  req_file :: "stored_file option"
  req_files :: "stored_file list option"
  query :: obj
  skipImage :: bool
  skipPdf :: bool

text \<open>\<open>bodyParser.json()\<close>: a JSON body becomes \<open>req.body\<close>, any other body leaves
  it the empty object.\<close>

definition incoming :: "payload \<Rightarrow> obj \<Rightarrow> ereq" where
  "incoming p q =
     \<lparr>payload = p, body = (case p of Json b \<Rightarrow> b | _ \<Rightarrow> no_keys), req_file = None, req_files = None,
      query = q, skipImage = False, skipPdf = False\<rparr>"

text \<open>\<open>multer({ storage, fileFilter }).single("image")\<close>.\<close>

definition uploadImageOnly :: "ereq \<Rightarrow> state \<Rightarrow> fault + (ereq \<times> state)" where
  "uploadImageOnly req s =
     (case payload req of
        Multipart flds parts \<Rightarrow>
          (case multer_files [(''image'', 1)] parts of
             Inl e \<Rightarrow> Inl e
           | Inr stored \<Rightarrow>
               Inr (req\<lparr>body := flds, req_file := (case stored of [] \<Rightarrow> None | f # fs \<Rightarrow> Some f)\<rparr>,
                    s\<lparr>public_dir := public_dir s @ map filename stored\<rparr>))
      | _ \<Rightarrow> Inr (req, s))"

text \<open>\<open>multer({ storage, fileFilter }).fields([{ name: "image", maxCount: 1 },
  { name: "pdfFile", maxCount: 1 }])\<close>.\<close>

definition upload :: "ereq \<Rightarrow> state \<Rightarrow> fault + (ereq \<times> state)" where
  "upload req s =
     (case payload req of
        Multipart flds parts \<Rightarrow>
          (case multer_files [(''image'', 1), (''pdfFile'', 1)] parts of
             Inl e \<Rightarrow> Inl e
           | Inr stored \<Rightarrow>
               Inr (req\<lparr>body := flds, req_files := Some stored\<rparr>,
                    s\<lparr>public_dir := public_dir s @ map filename stored\<rparr>))
      | _ \<Rightarrow> Inr (req, s))"

text \<open>\<open>req.files[name]\<close> and its first element.\<close>

definition files_named :: "stored_file list \<Rightarrow> string \<Rightarrow> stored_file list" where
  "files_named fs name = filter (\<lambda>f. fieldname (part f) = name) fs"

definition checkImageType :: "ereq \<Rightarrow> state \<Rightarrow> fault + (ereq \<times> state)" where
  "checkImageType req s =
     (if is_string (body req ''image'') then Inr (req, s) else uploadImageOnly req s)"

definition checkFiles :: "ereq \<Rightarrow> ereq" where
  "checkFiles req =
     (let req1 = (if is_string (body req ''image'') then req\<lparr>skipImage := True\<rparr> else req)
      in if is_string (body req1 ''pdfFile'') then req1\<lparr>skipPdf := True\<rparr> else req1)"

definition handleUpload :: "ereq \<Rightarrow> state \<Rightarrow> fault + (ereq \<times> state)" where
  "handleUpload req s = upload (checkFiles req) s"

text \<open>The error-handling middleware registered last.\<close>

definition global_error_handler :: "fault \<Rightarrow> response" where
  "global_error_handler err = respond 500 (StatusMessage ''error'' ''Internal Server Error'')"

section \<open>The connection pool\<close>

definition getConnection :: "env \<Rightarrow> state \<Rightarrow> fault + state" where
  "getConnection env s =
     (if pool_up env then Inr (s\<lparr>leased := Suc (leased s)\<rparr>)
      else Inl (Fault False ''getConnection failed''))"

definition release :: "state \<Rightarrow> state" where
  "release s = s\<lparr>leased := leased s - 1\<rparr>"

text \<open>A Node-style completion callback \<open>(err, results) => ...\<close> and the response
  it would send.\<close>

type_synonym callback = "fault option \<Rightarrow> qresult \<Rightarrow> response option"

text \<open>
  \<open>connection.query(sql, values, callback)\<close> on a connection of the pool that
  \<open>db/dbconfig.js\<close> creates from \<open>mysql2/promise\<close>. The promise client takes the
  SQL text and the values and returns a promise: it resolves with the result or
  rejects with the server's error. It never calls a function passed as third
  argument, so \<open>cb\<close> does not occur on the right-hand side.
\<close>

definition connection_query ::
  "env \<Rightarrow> string \<Rightarrow> jsval list \<Rightarrow> callback option \<Rightarrow> state \<Rightarrow> (thrown + qresult) \<times> state" where
  "connection_query env text vals cb s =
     (let q = \<lparr>sql = text, params = vals\<rparr>;
          s1 = s\<lparr>statements := statements s @ [q]\<rparr>
      in case mysql env q (db s) of
           Inl e \<Rightarrow> (Inl (Failure e), s1)
         | Inr (r, d) \<Rightarrow> (Inr r, s1\<lparr>db := d\<rparr>))"

text \<open>\<open>const [rows] = ...; rows[0]\<close>.\<close>

fun first_row :: "qresult \<Rightarrow> row option" where
  "first_row (Rows (r # rs)) = Some r"
| "first_row other = None"

section \<open>POST /api/send-mail\<close>

definition send_mail_catch :: "thrown \<Rightarrow> response" where
  "send_mail_catch error =
     (case error of
        ZodError errors \<Rightarrow> respond 400 (StatusErrors ''fail'' errors)
      | Failure f \<Rightarrow>
          if has_response f
          then respond 500 (StatusMessage ''error'' ''Failed to send email due to an external service error'')
          else respond 500 (StatusMessage ''error'' ''An unexpected error occurred''))"

definition post_send_mail :: "env \<Rightarrow> ereq \<Rightarrow> state \<Rightarrow> response \<times> state" where
  "post_send_mail env req s =
     (case formSchema env (body req) of
        Inl e \<Rightarrow> (send_mail_catch e, s)
      | Inr formData \<Rightarrow>
          (case readFile env ''email/mail.html'' of
             Inl f \<Rightarrow> (send_mail_catch (Failure f), s)
           | Inr emailTemplate \<Rightarrow>
               (let mailOptions =
                      \<lparr>sender = EMAIL_USER env, recipient = formData ''contact'',
                       subject = ''Thank you for your message!'',
                       html = str_replace env emailTemplate ''{{name}}'' (formData ''fullName'')\<rparr>
                in case sendMail env mailOptions of
                     Some f \<Rightarrow> (send_mail_catch (Failure f), s)
                   | None \<Rightarrow>
                       (respond 200 (StatusMessage ''success'' ''Email sent successfully!''),
                        s\<lparr>outbox := outbox s @ [mailOptions]\<rparr>))))"

section \<open>POST /api/login\<close>

text \<open>The catch block of the login, apps and projects POST handlers: the same
  three branches and the same JSON in each of them.\<close>

definition catch_block :: "thrown \<Rightarrow> response" where
  "catch_block error =
     (case error of
        ZodError errors \<Rightarrow> respond 400 (StatusErrors ''fail'' errors)
      | Failure f \<Rightarrow>
          if has_response f then respond 500 (StatusMessage ''error'' ''Failed to Login'')
          else respond 500 (StatusMessage ''error'' ''An unexpected error occurred''))"

definition login_try :: "env \<Rightarrow> ereq \<Rightarrow> state \<Rightarrow> (thrown + response) \<times> state" where
  "login_try env req s =
     (case loginSchema (body req) of
        Inl e \<Rightarrow> (Inl e, s)
      | Inr formData \<Rightarrow>
          (case connection_query env ''SELECT * FROM users WHERE email = ?''
                  [formData ''email''] None s of
             (Inl e, s1) \<Rightarrow> (Inl e, s1)
           | (Inr rows, s1) \<Rightarrow>
               (case first_row rows of
                  None \<Rightarrow>
                    (Inr (respond 400
                       (StatusErrors ''fail'' [(''email'', Custom ''User does not exist'')])), s1)
                | Some user \<Rightarrow>
                    (case bcrypt_compare env (formData ''password'') (column user ''password'') of
                       Inl f \<Rightarrow> (Inl (Failure f), s1)
                     | Inr isPasswordValid \<Rightarrow>
                         if \<not> isPasswordValid
                         then (Inr (respond 400
                                 (StatusErrors ''fail'' [(''password'', Custom ''Incorrect password'')])), s1)
                         else (case jwt_sign env
                                      (Obj [(''id'', column user ''id''), (''email'', column user ''email'')])
                                      ''1h'' of
                                 Inl f \<Rightarrow> (Inl (Failure f), s1)
                               | Inr token \<Rightarrow>
                                   (Inr (respond 200
                                      (StatusMessageToken ''success'' ''Successfully Logged In!'' token)),
                                    s1))))))"

definition post_login :: "env \<Rightarrow> ereq \<Rightarrow> state \<Rightarrow> response \<times> state" where
  "post_login env req s =
     (case getConnection env s of
        Inl f \<Rightarrow> (catch_block (Failure f), s)
      | Inr s1 \<Rightarrow>
          (case login_try env req s1 of
             (Inl e, s2) \<Rightarrow> (catch_block e, release s2)
           | (Inr res, s2) \<Rightarrow> (res, release s2)))"

section \<open>POST /api/apps and POST /api/edit/apps\<close>

text \<open>The callbacks the handlers pass as third argument of \<open>connection.query\<close>.\<close>

definition insert_callback :: callback where
  "insert_callback err results =
     (case err of
        Some e \<Rightarrow> Some (respond 500 (ErrorOnly ''Database insertion failed''))
      | None \<Rightarrow> None)"

definition update_callback :: callback where
  "update_callback err results =
     (case err of
        Some e \<Rightarrow> Some (respond 500 (ErrorOnly ''Database update failed''))
      | None \<Rightarrow>
          if affectedRows results = 0 then Some (respond 404 (ErrorOnly ''Record not found''))
          else Some (respond 200 (MessageOnly ''Record updated successfully'')))"

definition apps_input :: "ereq \<Rightarrow> obj" where
  "apps_input req =
     (let imageFile = req_file req
      in no_keys
          (''title'' := body req ''title'',
           ''content'' := body req ''content'',
           ''link'' := body req ''link'',
           ''category'' := body req ''category'',
           ''image'' := (case imageFile of Some f \<Rightarrow> Str (filename f) | None \<Rightarrow> Str [])))"

definition apps_try :: "env \<Rightarrow> ereq \<Rightarrow> state \<Rightarrow> (thrown + response) \<times> state" where
  "apps_try env req s =
     (case schema env (apps_input req) of
        Inl e \<Rightarrow> (Inl e, s)
      | Inr validatedData \<Rightarrow>
          (case connection_query env
                  ''INSERT INTO ?? (title, content, link, category, image) VALUES (?, ?, ?, ?, ?)''
                  [body req ''table'', validatedData ''title'', validatedData ''content'',
                   validatedData ''link'', validatedData ''category'', validatedData ''image'']
                  (Some insert_callback) s of
             (Inl e, s1) \<Rightarrow> (Inl e, s1)
           | (Inr results, s1) \<Rightarrow>
               (Inr (respond 200 (StatusMessage ''success'' ''Project submitted successfully!'')), s1)))"

definition post_apps_handler :: "env \<Rightarrow> ereq \<Rightarrow> state \<Rightarrow> response \<times> state" where
  "post_apps_handler env req s =
     (case getConnection env s of
        Inl f \<Rightarrow> (catch_block (Failure f), s)
      | Inr s1 \<Rightarrow>
          (case apps_try env req s1 of
             (Inl e, s2) \<Rightarrow> (catch_block e, release s2)
           | (Inr res, s2) \<Rightarrow> (res, release s2)))"

definition edit_apps_input :: "ereq \<Rightarrow> obj" where
  "edit_apps_input req =
     (let imageFile = req_file req
      in no_keys
          (''title'' := body req ''title'',
           ''content'' := body req ''content'',
           ''link'' := body req ''link'',
           ''category'' := body req ''category'',
           ''image'' := (case imageFile of Some f \<Rightarrow> Str (filename f) | None \<Rightarrow> body req ''image''),
           ''id'' := body req ''id''))"

definition edit_apps_try :: "env \<Rightarrow> ereq \<Rightarrow> state \<Rightarrow> (thrown + response) \<times> state" where
  "edit_apps_try env req s =
     (case editSchema env (edit_apps_input req) of
        Inl e \<Rightarrow> (Inl e, s)
      | Inr validatedData \<Rightarrow>
          (case connection_query env
                  ''UPDATE ?? SET title = ?, content = ?, link = ?, category = ?, image = ? WHERE id = ?''
                  [body req ''table'', validatedData ''title'', validatedData ''content'',
                   validatedData ''link'', validatedData ''category'', validatedData ''image'',
                   validatedData ''id'']
                  (Some update_callback) s of
             (Inl e, s1) \<Rightarrow> (Inl e, s1)
           | (Inr results, s1) \<Rightarrow>
               (Inr (respond 200 (StatusMessage ''success'' ''Project updated successfully!'')), s1)))"

definition post_edit_apps_handler :: "env \<Rightarrow> ereq \<Rightarrow> state \<Rightarrow> response \<times> state" where
  "post_edit_apps_handler env req s =
     (case getConnection env s of
        Inl f \<Rightarrow> (catch_block (Failure f), s)
      | Inr s1 \<Rightarrow>
          (case edit_apps_try env req s1 of
             (Inl e, s2) \<Rightarrow> (catch_block e, release s2)
           | (Inr res, s2) \<Rightarrow> (res, release s2)))"

section \<open>POST /api/projects and POST /api/edit/projects\<close>

text \<open>\<open>req.files[name] ? req.files[name][0] : ""\<close>; \<open>None\<close> is the empty string.\<close>

definition first_file :: "stored_file list \<Rightarrow> string \<Rightarrow> stored_file option" where
  "first_file fs name = (case files_named fs name of [] \<Rightarrow> None | f # rest \<Rightarrow> Some f)"

definition projects_input :: "stored_file option \<Rightarrow> stored_file option \<Rightarrow> obj" where
  "projects_input imageFile pdfFile =
     no_keys
       (''pdfFile'' := (case pdfFile of Some f \<Rightarrow> Str (filename f) | None \<Rightarrow> Str []),
        ''image'' := (case imageFile of Some f \<Rightarrow> Str (filename f) | None \<Rightarrow> Str []))"

definition projects_try ::
  "env \<Rightarrow> ereq \<Rightarrow> stored_file option \<Rightarrow> stored_file option \<Rightarrow> state \<Rightarrow> (thrown + response) \<times> state" where
  "projects_try env req imageFile pdfFile s =
     (case projectSchema (projects_input imageFile pdfFile) of
        Inl e \<Rightarrow> (Inl e, s)
      | Inr validatedData \<Rightarrow>
          (case connection_query env ''INSERT INTO ?? (pdf, image) VALUES (?, ?)''
                  [body req ''table'', validatedData ''pdfFile'', validatedData ''image'']
                  (Some insert_callback) s of
             (Inl e, s1) \<Rightarrow> (Inl e, s1)
           | (Inr results, s1) \<Rightarrow>
               (Inr (respond 200 (StatusMessage ''success'' ''Project submitted successfully!'')), s1)))"

text \<open>
  The handler reads \<open>req.files["image"]\<close> after it has taken the connection and
  before it enters the \<open>try ... finally\<close> that releases it. With \<open>req.files\<close>
  undefined the read throws a TypeError, which only the outer \<open>catch\<close> sees.
\<close>

definition post_projects_handler :: "env \<Rightarrow> ereq \<Rightarrow> state \<Rightarrow> response \<times> state" where
  "post_projects_handler env req s =
     (case getConnection env s of
        Inl f \<Rightarrow> (catch_block (Failure f), s)
      | Inr s1 \<Rightarrow>
          (case req_files req of
             None \<Rightarrow> (catch_block (Failure (Fault False ''TypeError'')), s1)
           | Some fs \<Rightarrow>
               (case projects_try env req (first_file fs ''image'') (first_file fs ''pdfFile'') s1 of
                  (Inl e, s2) \<Rightarrow> (catch_block e, release s2)
                | (Inr res, s2) \<Rightarrow> (res, release s2))))"

text \<open>
  \<open>req.files[name] ? req.files[name][0] : given ? given : ""\<close>, then
  \<open>typeof x !== "string" ? `${x.filename}` : x\<close>.
\<close>

definition slot_value :: "stored_file list \<Rightarrow> string \<Rightarrow> jsval \<Rightarrow> jsval" where
  "slot_value fs name given =
     (case first_file fs name of
        Some f \<Rightarrow> Str (filename f)
      | None \<Rightarrow>
          (let x = (if truthy given then given else Str [])
           in if \<not> is_string x then Str (js_string (js_member x ''filename'')) else x))"

definition edit_projects_input :: "ereq \<Rightarrow> stored_file list \<Rightarrow> obj" where
  "edit_projects_input req fs =
     no_keys
       (''pdfFile'' := slot_value fs ''pdfFile'' (body req ''pdfFile''),
        ''image'' := slot_value fs ''image'' (body req ''image''),
        ''id'' := body req ''id'')"

definition edit_projects_try ::
  "env \<Rightarrow> ereq \<Rightarrow> stored_file list \<Rightarrow> state \<Rightarrow> (thrown + response) \<times> state" where
  "edit_projects_try env req fs s =
     (case projectEditSchema (edit_projects_input req fs) of
        Inl e \<Rightarrow> (Inl e, s)
      | Inr validatedData \<Rightarrow>
          (case connection_query env ''UPDATE ?? SET pdf = ?, image = ? WHERE id = ?''
                  [body req ''table'', validatedData ''pdfFile'', validatedData ''image'',
                   validatedData ''id'']
                  (Some update_callback) s of
             (Inl e, s1) \<Rightarrow> (Inl e, s1)
           | (Inr results, s1) \<Rightarrow>
               (Inr (respond 200 (StatusMessage ''success'' ''Project submitted successfully!'')), s1)))"

definition post_edit_projects_handler :: "env \<Rightarrow> ereq \<Rightarrow> state \<Rightarrow> response \<times> state" where
  "post_edit_projects_handler env req s =
     (case getConnection env s of
        Inl f \<Rightarrow> (catch_block (Failure f), s)
      | Inr s1 \<Rightarrow>
          (case req_files req of
             None \<Rightarrow> (catch_block (Failure (Fault False ''TypeError'')), s1)
           | Some fs \<Rightarrow>
               (case edit_projects_try env req fs s1 of
                  (Inl e, s2) \<Rightarrow> (catch_block e, release s2)
                | (Inr res, s2) \<Rightarrow> (res, release s2))))"

section \<open>The GET routes\<close>

definition query_failed :: response where
  "query_failed = respond 500 (StatusError ''fail'' ''Database query failed'')"

definition table_required :: response where
  "table_required = respond 400 (StatusError ''fail'' ''Table name is required'')"

definition select_try ::
  "env \<Rightarrow> string \<Rightarrow> jsval list \<Rightarrow> state \<Rightarrow> (thrown + response) \<times> state" where
  "select_try env text vals s =
     (case connection_query env text vals None s of
        (Inl e, s1) \<Rightarrow> (Inl e, s1)
      | (Inr results, s1) \<Rightarrow> (Inr (respond 200 (StatusResults ''success'' results)), s1))"

text \<open>The shape all GET handlers share: take a connection; inside
  \<open>try ... finally release\<close> check the parameters and run the statement; answer 500
  from the outer \<open>catch\<close>.\<close>

definition get_route ::
  "env \<Rightarrow> bool \<Rightarrow> response \<Rightarrow> string \<Rightarrow> jsval list \<Rightarrow> state \<Rightarrow> response \<times> state" where
  "get_route env missing refusal text vals s =
     (case getConnection env s of
        Inl f \<Rightarrow> (query_failed, s)
      | Inr s1 \<Rightarrow>
          if missing then (refusal, release s1)
          else (case select_try env text vals s1 of
                  (Inl e, s2) \<Rightarrow> (query_failed, release s2)
                | (Inr res, s2) \<Rightarrow> (res, release s2)))"

definition get_apps :: "env \<Rightarrow> ereq \<Rightarrow> state \<Rightarrow> response \<times> state" where
  "get_apps env req s =
     (let tableName = query req ''db''
      in get_route env (\<not> truthy tableName) table_required ''SELECT * FROM ??'' [tableName] s)"

definition get_edit_apps :: "env \<Rightarrow> ereq \<Rightarrow> state \<Rightarrow> response \<times> state" where
  "get_edit_apps env req s =
     (let tableName = query req ''db''; id = query req ''id''
      in get_route env (\<not> truthy tableName \<or> \<not> truthy id)
           (respond 400 (StatusError ''fail'' ''Table or ID name is required''))
           ''SELECT * FROM ?? WHERE id = ?'' [tableName, id] s)"

definition get_projects :: "env \<Rightarrow> ereq \<Rightarrow> state \<Rightarrow> response \<times> state" where
  "get_projects env req s =
     (let tableName = query req ''db''
      in get_route env (\<not> truthy tableName) table_required ''SELECT * FROM ??'' [tableName] s)"

definition get_edit_projects :: "env \<Rightarrow> ereq \<Rightarrow> state \<Rightarrow> response \<times> state" where
  "get_edit_projects env req s =
     (let tableName = query req ''db''; id = query req ''id''
      in get_route env (\<not> truthy tableName) table_required
           ''SELECT * FROM ?? WHERE id = ?'' [tableName, id] s)"

definition get_projects_delete :: "env \<Rightarrow> ereq \<Rightarrow> state \<Rightarrow> response \<times> state" where
  "get_projects_delete env req s =
     (let tableName = query req ''type''; id = query req ''id''
      in get_route env (\<not> truthy tableName) table_required
           ''DELETE FROM ?? WHERE id = ?'' [tableName, id] s)"

section \<open>Routes\<close>

text \<open>
  A route with one middleware in front of its handler. When the middleware calls
  \<open>next(err)\<close> the handler does not run and the error-handling middleware
  answers.
\<close>

definition route_with ::
  "(ereq \<Rightarrow> state \<Rightarrow> fault + (ereq \<times> state)) \<Rightarrow> (env \<Rightarrow> ereq \<Rightarrow> state \<Rightarrow> response \<times> state) \<Rightarrow>
   env \<Rightarrow> ereq \<Rightarrow> state \<Rightarrow> response \<times> state" where
  "route_with middleware handler env req s =
     (case middleware req s of
        Inl err \<Rightarrow> (global_error_handler err, s)
      | Inr (req1, s1) \<Rightarrow> handler env req1 s1)"

definition post_apps :: "env \<Rightarrow> ereq \<Rightarrow> state \<Rightarrow> response \<times> state" where
  "post_apps = route_with uploadImageOnly post_apps_handler"

definition post_edit_apps :: "env \<Rightarrow> ereq \<Rightarrow> state \<Rightarrow> response \<times> state" where
  "post_edit_apps = route_with checkImageType post_edit_apps_handler"

definition post_projects :: "env \<Rightarrow> ereq \<Rightarrow> state \<Rightarrow> response \<times> state" where
  "post_projects = route_with upload post_projects_handler"

definition post_edit_projects :: "env \<Rightarrow> ereq \<Rightarrow> state \<Rightarrow> response \<times> state" where
  "post_edit_projects = route_with handleUpload post_edit_projects_handler"

text \<open>The four routes that write a record, their middleware, and the issues the
  schema of each finds in the object its handler builds.\<close>

datatype write_route = Apps | EditApps | Projects | EditProjects

fun write_middleware :: "write_route \<Rightarrow> ereq \<Rightarrow> state \<Rightarrow> fault + (ereq \<times> state)" where
  "write_middleware Apps = uploadImageOnly"
| "write_middleware EditApps = checkImageType"
| "write_middleware Projects = upload"
| "write_middleware EditProjects = handleUpload"

fun write_handler :: "write_route \<Rightarrow> env \<Rightarrow> ereq \<Rightarrow> state \<Rightarrow> response \<times> state" where
  "write_handler Apps = post_apps_handler"
| "write_handler EditApps = post_edit_apps_handler"
| "write_handler Projects = post_projects_handler"
| "write_handler EditProjects = post_edit_projects_handler"

definition write_request :: "write_route \<Rightarrow> env \<Rightarrow> ereq \<Rightarrow> state \<Rightarrow> response \<times> state" where
  "write_request r = route_with (write_middleware r) (write_handler r)"

fun schema_issues_of :: "write_route \<Rightarrow> env \<Rightarrow> ereq \<Rightarrow> issue list" where
  "schema_issues_of Apps env req = schema_issues env (apps_input req)"
| "schema_issues_of EditApps env req = editSchema_issues env (edit_apps_input req)"
| "schema_issues_of Projects env req =
     (case req_files req of
        None \<Rightarrow> []
      | Some fs \<Rightarrow> projectSchema_issues (projects_input (first_file fs ''image'') (first_file fs ''pdfFile'')))"
| "schema_issues_of EditProjects env req =
     (case req_files req of
        None \<Rightarrow> []
      | Some fs \<Rightarrow> projectEditSchema_issues (edit_projects_input req fs))"

text \<open>The request reaches the handler of the route and fails its schema.\<close>

definition fails_validation :: "write_route \<Rightarrow> env \<Rightarrow> ereq \<Rightarrow> state \<Rightarrow> bool" where
  "fails_validation r env req s =
     (case write_middleware r req s of
        Inl err \<Rightarrow> False
      | Inr (req1, s1) \<Rightarrow> schema_issues_of r env req1 \<noteq> [])"

section \<open>A sample deployment\<close>

text \<open>
  Stand-ins for the collaborators and a small database, to run the routes on
  concrete requests. The in-memory server knows the statements of the handlers;
  a table is a list of rows, and a row whose \<open>id\<close> equals the bound value is the
  row a \<open>WHERE id = ?\<close> selects.
\<close>

definition sample_email :: "string \<Rightarrow> bool" where
  "sample_email s = (CHR ''@'' \<in> set s)"

definition sample_url :: "string \<Rightarrow> bool" where
  "sample_url s = (starts_with ''http://'' s \<or> starts_with ''https://'' s)"

definition sample_bcrypt :: "jsval \<Rightarrow> jsval \<Rightarrow> fault + bool" where
  "sample_bcrypt given hash =
     (case (given, hash) of
        (Str p, Str h) \<Rightarrow> Inr (h = ''hashed:'' @ p)
      | _ \<Rightarrow> Inl (Fault False ''data and hash must be strings''))"

definition sample_jwt :: "jsval \<Rightarrow> string \<Rightarrow> fault + string" where
  "sample_jwt claims expiresIn =
     Inr (''token/'' @ js_string (js_member claims ''email'') @ ''/'' @ expiresIn)"

fun replace_first :: "string \<Rightarrow> string \<Rightarrow> string \<Rightarrow> string" where
  "replace_first pat rep [] = []"
| "replace_first pat rep (c # s) =
     (if starts_with pat (c # s) then rep @ drop (length pat) (c # s)
      else c # replace_first pat rep s)"

definition where_id :: "jsval \<Rightarrow> row \<Rightarrow> bool" where
  "where_id v r = (is_string v \<and> column r ''id'' = v)"

definition app_columns :: "string list" where
  "app_columns = [''title'', ''content'', ''link'', ''category'', ''image'']"

definition sample_mysql :: "stmt \<Rightarrow> database \<Rightarrow> fault + (qresult \<times> database)" where
  "sample_mysql q d =
     (if sql q = ''SELECT * FROM users WHERE email = ?''
      then (case d ''users'' of
              None \<Rightarrow> Inl (Fault False ''ER_NO_SUCH_TABLE'')
            | Some rows \<Rightarrow> Inr (Rows (filter (\<lambda>r. [column r ''email''] = params q) rows), d))
      else (case params q of
              [] \<Rightarrow> Inl (Fault False ''ER_PARSE_ERROR'')
            | t # vals \<Rightarrow>
                (case d (js_string t) of
                   None \<Rightarrow> Inl (Fault False ''ER_NO_SUCH_TABLE'')
                 | Some rows \<Rightarrow>
                     if sql q = ''INSERT INTO ?? (title, content, link, category, image) VALUES (?, ?, ?, ?, ?)''
                     then Inr (Header 1,
                            d(js_string t \<mapsto>
                              rows @ [(''id'', Str (decimal (Suc (length rows)))) # zip app_columns vals]))
                     else if sql q = ''UPDATE ?? SET title = ?, content = ?, link = ?, category = ?, image = ? WHERE id = ?''
                     then Inr (Header (length (filter (where_id (last vals)) rows)),
                            d(js_string t \<mapsto>
                              map (\<lambda>r. if where_id (last vals) r
                                        then (''id'', column r ''id'') # zip app_columns vals else r) rows))
                     else if sql q = ''DELETE FROM ?? WHERE id = ?''
                     then Inr (Header (length (filter (where_id (last vals)) rows)),
                            d(js_string t \<mapsto> filter (\<lambda>r. \<not> where_id (last vals) r) rows))
                     else if sql q = ''SELECT * FROM ??''
                     then Inr (Rows rows, d)
                     else Inl (Fault False ''ER_PARSE_ERROR''))))"

definition sample_env :: env where
  "sample_env =
     \<lparr>zod_email = sample_email, zod_url = sample_url, pool_up = True, mysql = sample_mysql,
      bcrypt_compare = sample_bcrypt, jwt_sign = sample_jwt,
      readFile = (\<lambda>p. Inr ''<p>Dear {{name}}, thank you.</p>''),
      str_replace = (\<lambda>s pat v. replace_first pat (js_string v) s),
      sendMail = (\<lambda>m. None), EMAIL_USER = Str ''hello@abcd.graphics''\<rparr>"

definition sample_db :: database where
  "sample_db =
     (\<lambda>t. None)
       (''users'' \<mapsto>
          [[(''id'', Num 1), (''email'', Str ''admin@abcd.graphics''),
            (''password'', Str ''hashed:s3cret'')]],
        ''apps_demo'' \<mapsto>
          [[(''id'', Str ''1''), (''title'', Str ''Shop''), (''content'', Str ''A shop''),
            (''link'', Str ''https://shop.example''), (''category'', Str ''d-only''),
            (''image'', Str ''1700000000000_shop.png'')]],
        ''projects'' \<mapsto>
          [[(''id'', Str ''1''), (''pdf'', Str []), (''image'', Str ''1700000000001_a.png'')]])"

definition sample_state :: state where
  "sample_state = \<lparr>db = sample_db, statements = [], leased = 0, public_dir = [], outbox = []\<rparr>"

definition with_keys :: "(string \<times> jsval) list \<Rightarrow> obj" where
  "with_keys kv = (\<lambda>k. case map_of kv k of Some v \<Rightarrow> v | None \<Rightarrow> Undefined)"

section \<open>What a response carries\<close>

definition errors_of :: "response \<Rightarrow> issue list" where
  "errors_of res = (case json res of StatusErrors st errors \<Rightarrow> errors | _ \<Rightarrow> [])"

definition token_of :: "response \<Rightarrow> string option" where
  "token_of res = (case json res of StatusMessageToken st m token \<Rightarrow> Some token | _ \<Rightarrow> None)"

text \<open>
  From the spec: a file is allowed when both its extension and its declared MIME
  type belong to the allow-list (jpeg, jpg, png, gif, pdf). The extension is read
  without its dot and in lower case, the MIME type by its subtype.
\<close>

definition spec_extension_listed :: "upload_part \<Rightarrow> bool" where
  "spec_extension_listed f =
     list_ex (\<lambda>t. toLowerCase (path_extname (originalname f)) = CHR ''.'' # t) filetypes"

definition spec_mimetype_listed :: "upload_part \<Rightarrow> bool" where
  "spec_mimetype_listed f =
     list_ex (\<lambda>t. mimetype f = ''image/'' @ t \<or> mimetype f = ''application/'' @ t) filetypes"

definition spec_allowed_upload :: "upload_part \<Rightarrow> bool" where
  "spec_allowed_upload f = (spec_extension_listed f \<and> spec_mimetype_listed f)"

section \<open>Sample requests\<close>

definition app_fields :: "(string \<times> jsval) list" where
  "app_fields =
     [(''title'', Str ''Shop''), (''content'', Str ''A shop''),
      (''link'', Str ''https://shop.example''), (''category'', Str ''d-only'')]"

definition logo_part :: upload_part where
  "logo_part =
     \<lparr>fieldname = ''image'', originalname = ''logo.png'', mimetype = ''image/png'',
      arrival = 1700000000123\<rparr>"

definition create_logo :: ereq where
  "create_logo =
     incoming (Multipart (with_keys ((''table'', Str ''apps_demo'') # app_fields)) [logo_part]) no_keys"

definition create_without_table :: ereq where
  "create_without_table = incoming (Multipart (with_keys app_fields) [logo_part]) no_keys"

definition create_untitled :: ereq where
  "create_untitled =
     incoming (Multipart (with_keys ((''table'', Str ''apps_demo'') # (''title'', Str []) # tl app_fields))
                 [logo_part]) no_keys"

definition edit_missing_row :: ereq where
  "edit_missing_row =
     incoming (Json (with_keys ((''table'', Str ''apps_demo'') # (''id'', Str ''999'') #
                                (''image'', Str ''1700000000000_shop.png'') # app_fields))) no_keys"

definition disguised_part :: upload_part where
  "disguised_part =
     \<lparr>fieldname = ''image'', originalname = ''installer.pngexe'',
      mimetype = ''application/x-pngexe'', arrival = 1700000000456\<rparr>"

definition create_disguised :: ereq where
  "create_disguised =
     incoming (Multipart (with_keys ((''table'', Str ''apps_demo'') # app_fields)) [disguised_part])
       no_keys"

definition json_project_request :: ereq where
  "json_project_request = incoming (Json (with_keys [(''table'', Str ''projects'')])) no_keys"

definition ghost_login :: ereq where
  "ghost_login =
     incoming (Json (with_keys [(''email'', Str ''ghost@nowhere.example''), (''password'', Str [])]))
       no_keys"

definition admin_login :: ereq where
  "admin_login =
     incoming (Json (with_keys [(''email'', Str ''admin@abcd.graphics''), (''password'', Str ''s3cret'')]))
       no_keys"

definition admin_row :: row where
  "admin_row =
     [(''id'', Num 1), (''email'', Str ''admin@abcd.graphics''), (''password'', Str ''hashed:s3cret'')]"

definition phone_contact :: ereq where
  "phone_contact =
     incoming (Json (with_keys [(''fullName'', Str ''Ann''), (''contact'', Str ''+15551234567''),
                                (''message'', Str ''Please call me'')])) no_keys"

definition delete_without_id :: ereq where
  "delete_without_id = incoming Other (with_keys [(''type'', Str ''projects'')])"

section \<open>Shared lemmas\<close>

lemma z_object_Inr:
  "(z_object keys issues input = Inr v) =
     (issues = [] \<and> v = (\<lambda>k. if k \<in> set keys then input k else Undefined))"
  by (auto simp: z_object_def)

lemma z_object_Inl: "(z_object keys issues input = Inl e) = (issues \<noteq> [] \<and> e = ZodError issues)"
  by (auto simp: z_object_def)

lemma connection_query_frame:
  "connection_query env text vals cb s = (out, s1) \<Longrightarrow>
     statements s1 = statements s @ [\<lparr>sql = text, params = vals\<rparr>] \<and> leased s1 = leased s
     \<and> public_dir s1 = public_dir s \<and> outbox s1 = outbox s"
  by (auto simp: connection_query_def Let_def split: sum.splits prod.splits)

lemma connection_query_ignores_callback:
  "connection_query env text vals (Some cb) s = connection_query env text vals None s"
  by (simp add: connection_query_def)

lemma catch_block_400: "(status (catch_block e) = 400) = (\<exists>errors. e = ZodError errors)"
  by (cases e) (auto simp: catch_block_def respond_def)

lemma catch_block_zod: "catch_block (ZodError errors) = respond 400 (StatusErrors ''fail'' errors)"
  by (simp add: catch_block_def)

lemma catch_block_failure: "status (catch_block (Failure f)) = 500"
  by (simp add: catch_block_def respond_def)

lemma middleware_frame:
  "write_middleware r req s = Inr (req1, s1) \<Longrightarrow>
     db s1 = db s \<and> statements s1 = statements s \<and> leased s1 = leased s"
  by (cases r)
     (auto simp: uploadImageOnly_def checkImageType_def upload_def handleUpload_def
           split: payload.splits sum.splits if_splits)

lemma middleware_only_stores:
  "write_middleware r req s = Inr (req1, s1) \<Longrightarrow>
     \<exists>added. s1 = s\<lparr>public_dir := public_dir s @ added\<rparr>"
proof (cases r)
  case Apps
  assume "write_middleware r req s = Inr (req1, s1)"
  with Apps show ?thesis
    by (cases "payload req")
       (auto simp: uploadImageOnly_def split: sum.splits intro: exI [of _ "[]"])
next
  case EditApps
  assume "write_middleware r req s = Inr (req1, s1)"
  with EditApps show ?thesis
    by (cases "payload req")
       (auto simp: checkImageType_def uploadImageOnly_def split: sum.splits if_splits
             intro: exI [of _ "[]"])
next
  case Projects
  assume "write_middleware r req s = Inr (req1, s1)"
  with Projects show ?thesis
    by (cases "payload req")
       (auto simp: upload_def split: sum.splits intro: exI [of _ "[]"])
next
  case EditProjects
  assume "write_middleware r req s = Inr (req1, s1)"
  with EditProjects show ?thesis
    by (cases "payload (checkFiles req)")
       (auto simp: handleUpload_def upload_def split: sum.splits intro: exI [of _ "[]"])
qed

section \<open>Validation comes before persistence\<close>

lemma apps_unchanged:
  assumes "post_apps_handler env req s = (res, s')"
      and "schema_issues env (apps_input req) \<noteq> [] \<or> status res = 400"
  shows "db s' = db s \<and> statements s' = statements s"
  using assms
  by (auto simp: post_apps_handler_def apps_try_def schema_def z_object_def getConnection_def
        release_def connection_query_def Let_def catch_block_def respond_def
      split: sum.splits prod.splits if_splits thrown.splits)

lemma edit_apps_unchanged:
  assumes "post_edit_apps_handler env req s = (res, s')"
      and "editSchema_issues env (edit_apps_input req) \<noteq> [] \<or> status res = 400"
  shows "db s' = db s \<and> statements s' = statements s"
  using assms
  by (auto simp: post_edit_apps_handler_def edit_apps_try_def editSchema_def z_object_def
        getConnection_def release_def connection_query_def Let_def catch_block_def respond_def
      split: sum.splits prod.splits if_splits thrown.splits)

lemma projects_unchanged:
  assumes "post_projects_handler env req s = (res, s')"
      and "schema_issues_of Projects env req \<noteq> [] \<or> status res = 400"
  shows "db s' = db s \<and> statements s' = statements s"
  using assms
  by (auto simp: post_projects_handler_def projects_try_def projectSchema_def z_object_def
        getConnection_def release_def connection_query_def Let_def catch_block_def respond_def
      split: sum.splits prod.splits if_splits thrown.splits option.splits)

lemma edit_projects_unchanged:
  assumes "post_edit_projects_handler env req s = (res, s')"
      and "schema_issues_of EditProjects env req \<noteq> [] \<or> status res = 400"
  shows "db s' = db s \<and> statements s' = statements s"
  using assms
  by (auto simp: post_edit_projects_handler_def edit_projects_try_def projectEditSchema_def
        z_object_def getConnection_def release_def connection_query_def Let_def catch_block_def
        respond_def
      split: sum.splits prod.splits if_splits thrown.splits option.splits)

lemma handler_unchanged:
  assumes "write_handler r env req s = (res, s')"
      and "schema_issues_of r env req \<noteq> [] \<or> status res = 400"
  shows "db s' = db s \<and> statements s' = statements s"
proof (cases r)
  case Apps
  with assms show ?thesis using apps_unchanged [of env req s res s'] by simp
next
  case EditApps
  with assms show ?thesis using edit_apps_unchanged [of env req s res s'] by simp
next
  case Projects
  with assms show ?thesis using projects_unchanged [of env req s res s'] by simp
next
  case EditProjects
  with assms show ?thesis using edit_projects_unchanged [of env req s res s'] by simp
qed

lemma handler_state_unchanged:
  assumes "write_handler r env req s = (res, s')"
      and "schema_issues_of r env req \<noteq> [] \<or> status res = 400"
  shows "s' = s"
  using assms
  by (cases r)
     (auto simp: post_apps_handler_def apps_try_def schema_def post_edit_apps_handler_def
        edit_apps_try_def editSchema_def post_projects_handler_def projects_try_def
        projectSchema_def post_edit_projects_handler_def edit_projects_try_def
        projectEditSchema_def z_object_def getConnection_def release_def connection_query_def
        Let_def catch_block_def respond_def
      split: sum.splits prod.splits if_splits thrown.splits option.splits)

lemma handler_rejects:
  assumes "schema_issues_of r env req \<noteq> []" and "pool_up env"
  shows "fst (write_handler r env req s) =
           respond 400 (StatusErrors ''fail'' (schema_issues_of r env req))"
  using assms
  by (cases r)
     (auto simp: post_apps_handler_def apps_try_def schema_def post_edit_apps_handler_def
        edit_apps_try_def editSchema_def post_projects_handler_def projects_try_def
        projectSchema_def post_edit_projects_handler_def edit_projects_try_def
        projectEditSchema_def z_object_def getConnection_def catch_block_def
      split: option.splits)

text \<open>
  C3, as amended. On the four routes that write a record (POST /api/apps,
  /api/edit/apps, /api/projects, /api/edit/projects): when the object the handler
  builds fails the schema of the route, or when the response has status 400, no
  statement was sent to the database and the database is as it was. The one part
  of the state such a request can change is the directory \<open>public/\<close>: the upload
  middleware runs before the handler, so the files it accepted are stored by the
  time the schema is checked. With the pool up, a request that fails the schema
  is answered with status 400 and the issues of the schema.
\<close>

theorem validation_precedes_persistence:
  assumes "write_request r env req s = (res, s')"
      and "fails_validation r env req s \<or> status res = 400"
  shows "db s' = db s \<and> statements s' = statements s \<and>
         (\<exists>added. s' = s\<lparr>public_dir := public_dir s @ added\<rparr>) \<and>
         (fails_validation r env req s \<and> pool_up env \<longrightarrow>
            (\<exists>errors. errors \<noteq> [] \<and> res = respond 400 (StatusErrors ''fail'' errors)))"
proof (cases "write_middleware r req s")
  case (Inl err)
  with assms(1) have res: "res = respond 500 (StatusMessage ''error'' ''Internal Server Error'')"
    by (auto simp: write_request_def route_with_def global_error_handler_def)
  from Inl have "\<not> fails_validation r env req s" by (simp add: fails_validation_def)
  with assms(2) res have False by (simp add: respond_def)
  then show ?thesis ..
next
  case (Inr after)
  obtain req1 s1 where after: "after = (req1, s1)" by (cases after)
  from Inr after assms(1) have run: "write_handler r env req1 s1 = (res, s')"
    by (simp add: write_request_def route_with_def)
  from Inr after have fv: "fails_validation r env req s = (schema_issues_of r env req1 \<noteq> [])"
    by (simp add: fails_validation_def)
  from assms(2) fv have cond: "schema_issues_of r env req1 \<noteq> [] \<or> status res = 400" by simp
  from handler_unchanged [OF run cond] middleware_frame [of r req s req1 s1] Inr after
  have frame: "db s' = db s \<and> statements s' = statements s" by simp
  from handler_state_unchanged [OF run cond] have same: "s' = s1" .
  from Inr after have "write_middleware r req s = Inr (req1, s1)" by simp
  from middleware_only_stores [OF this] same
  have grown: "\<exists>added. s' = s\<lparr>public_dir := public_dir s @ added\<rparr>" by simp
  have "\<exists>errors. errors \<noteq> [] \<and> res = respond 400 (StatusErrors ''fail'' errors)"
    if "fails_validation r env req s" and "pool_up env"
  proof -
    from that fv have bad: "schema_issues_of r env req1 \<noteq> []" by simp
    from handler_rejects [OF bad that(2), of s1] run
    have "res = respond 400 (StatusErrors ''fail'' (schema_issues_of r env req1))" by simp
    with bad show ?thesis by blast
  qed
  with frame grown show ?thesis by blast
qed

section \<open>Running the sample deployment\<close>

lemmas schema_defs =
  z_string_def z_min1_def z_format_def z_any_def z_optional_string_def z_enum_def z_object_def
  formSchema_issues_def formSchema_def loginSchema_issues_def loginSchema_def schema_issues_def
  schema_def editSchema_issues_def editSchema_def projectSchema_issues_def projectSchema_def
  projectEditSchema_issues_def projectEditSchema_def

lemmas upload_defs =
  last_portion_def path_extname_def lower_char_def toLowerCase_def regex_test_def filetypes_def
  fileFilter_def storage_filename_def filesLeft_def take_one_def incoming_def uploadImageOnly_def
  upload_def files_named_def checkImageType_def checkFiles_def handleUpload_def
  global_error_handler_def first_file_def decimal.simps digit_def

lemmas handler_defs =
  getConnection_def release_def connection_query_def catch_block_def send_mail_catch_def
  post_send_mail_def login_try_def post_login_def apps_input_def apps_try_def
  post_apps_handler_def edit_apps_input_def edit_apps_try_def post_edit_apps_handler_def
  projects_input_def projects_try_def post_projects_handler_def slot_value_def
  edit_projects_input_def edit_projects_try_def post_edit_projects_handler_def query_failed_def
  table_required_def select_try_def get_route_def get_apps_def get_edit_apps_def
  get_projects_def get_edit_projects_def get_projects_delete_def route_with_def post_apps_def
  post_edit_apps_def post_projects_def post_edit_projects_def write_request_def
  fails_validation_def respond_def no_keys_def column_def

lemmas sample_defs =
  sample_email_def sample_url_def sample_bcrypt_def sample_jwt_def where_id_def app_columns_def
  sample_mysql_def sample_env_def sample_db_def sample_state_def with_keys_def app_fields_def
  logo_part_def create_logo_def create_without_table_def create_untitled_def
  edit_missing_row_def disguised_part_def create_disguised_def json_project_request_def
  ghost_login_def admin_login_def admin_row_def phone_contact_def delete_without_id_def

lemma create_untitled_run:
  "write_request Apps sample_env create_untitled sample_state =
     (respond 400 (StatusErrors ''fail'' [(''title'', Custom ''Title is required'')]),
      sample_state\<lparr>public_dir := [''1700000000123_logo.png'']\<rparr>)"
  by (simp add: schema_defs upload_defs handler_defs sample_defs Let_def)

lemma create_untitled_fails_validation:
  "fails_validation Apps sample_env create_untitled sample_state"
  by (simp add: schema_defs upload_defs handler_defs sample_defs Let_def)

theorem validation_precedes_persistence_witness:
  "fails_validation Apps sample_env create_untitled sample_state \<and>
   status (fst (write_request Apps sample_env create_untitled sample_state)) = 400 \<and>
   db (snd (write_request Apps sample_env create_untitled sample_state)) = db sample_state \<and>
   statements (snd (write_request Apps sample_env create_untitled sample_state)) = [] \<and>
   errors_of (fst (write_request Apps sample_env create_untitled sample_state)) =
     [(''title'', Custom ''Title is required'')]"
proof -
  have bad: "fails_validation Apps sample_env create_untitled sample_state"
    by (rule create_untitled_fails_validation)
  then have "fails_validation Apps sample_env create_untitled sample_state \<or>
      status (respond 400 (StatusErrors ''fail'' [(''title'', Custom ''Title is required'')])) = 400"
    by simp
  from validation_precedes_persistence [OF create_untitled_run this] bad
  show ?thesis
    unfolding create_untitled_run
    by (simp add: respond_def errors_of_def sample_state_def)
qed

text \<open>
  The claim as stated fails for a create-app request with an empty title and an
  image: the response is the 400 validation response, and the image is under
  \<open>public/\<close>, where it was not before.
\<close>

theorem validation_leaves_upload_counterexample:
  "fails_validation Apps sample_env create_untitled sample_state \<and>
   status (fst (write_request Apps sample_env create_untitled sample_state)) = 400 \<and>
   public_dir sample_state = [] \<and>
   public_dir (snd (write_request Apps sample_env create_untitled sample_state)) =
     [''1700000000123_logo.png''] \<and>
   snd (write_request Apps sample_env create_untitled sample_state) \<noteq> sample_state"
proof -
  have a: "fails_validation Apps sample_env create_untitled sample_state"
    by (rule create_untitled_fails_validation)
  have b: "status (fst (write_request Apps sample_env create_untitled sample_state)) = 400"
    by (simp add: create_untitled_run respond_def)
  have c: "public_dir sample_state = []" by (simp add: sample_state_def)
  have d: "public_dir (snd (write_request Apps sample_env create_untitled sample_state)) =
     [''1700000000123_logo.png'']"
    by (simp add: create_untitled_run)
  from c d have e: "snd (write_request Apps sample_env create_untitled sample_state) \<noteq> sample_state"
    by auto
  from a b c d e show ?thesis by blast
qed

section \<open>The contact form\<close>

text \<open>
  C8. POST /api/send-mail accepts \<open>contact\<close> only as an email address: a 200
  response implies that \<open>contact\<close> is a non-empty string that passes zod's email
  check, and a non-empty string that fails the check (a phone number, say) is
  answered with status 400 and the issue "Invalid email format" on \<open>contact\<close>,
  with no mail handed to the transport.
\<close>

theorem send_mail_contact_must_be_email:
  "(status (fst (post_send_mail env req s)) = 200 \<longrightarrow>
      (\<exists>c. body req ''contact'' = Str c \<and> c \<noteq> [] \<and> zod_email env c)) \<and>
   (\<forall>c. body req ''contact'' = Str c \<and> c \<noteq> [] \<and> \<not> zod_email env c \<longrightarrow>
      status (fst (post_send_mail env req s)) = 400 \<and>
      (''contact'', Custom ''Invalid email format'') \<in> set (errors_of (fst (post_send_mail env req s))) \<and>
      snd (post_send_mail env req s) = s)"
proof (intro conjI allI impI)
  assume ok: "status (fst (post_send_mail env req s)) = 200"
  have "formSchema_issues env (body req) = []"
  proof (rule ccontr)
    assume "formSchema_issues env (body req) \<noteq> []"
    then have "status (fst (post_send_mail env req s)) = 400"
      by (simp add: post_send_mail_def formSchema_def z_object_def send_mail_catch_def respond_def)
    with ok show False by simp
  qed
  then show "\<exists>c. body req ''contact'' = Str c \<and> c \<noteq> [] \<and> zod_email env c"
    by (cases "body req ''contact''")
       (auto simp: formSchema_issues_def z_string_def z_min1_def z_format_def split: if_splits)
next
  fix c
  assume c: "body req ''contact'' = Str c \<and> c \<noteq> [] \<and> \<not> zod_email env c"
  then have mem: "(''contact'', Custom ''Invalid email format'') \<in> set (formSchema_issues env (body req))"
    by (simp add: formSchema_issues_def z_string_def z_min1_def z_format_def)
  then have bad: "formSchema_issues env (body req) \<noteq> []" by auto
  then have run: "post_send_mail env req s =
      (respond 400 (StatusErrors ''fail'' (formSchema_issues env (body req))), s)"
    by (simp add: post_send_mail_def formSchema_def z_object_def send_mail_catch_def)
  show "status (fst (post_send_mail env req s)) = 400" by (simp add: run respond_def)
  show "(''contact'', Custom ''Invalid email format'') \<in> set (errors_of (fst (post_send_mail env req s)))"
    using mem by (simp add: run respond_def errors_of_def)
  show "snd (post_send_mail env req s) = s" by (simp add: run)
qed

theorem send_mail_contact_must_be_email_witness:
  "body phone_contact ''contact'' = Str ''+15551234567'' \<and>
   \<not> zod_email sample_env ''+15551234567'' \<and>
   status (fst (post_send_mail sample_env phone_contact sample_state)) = 400 \<and>
   (''contact'', Custom ''Invalid email format'')
     \<in> set (errors_of (fst (post_send_mail sample_env phone_contact sample_state))) \<and>
   outbox (snd (post_send_mail sample_env phone_contact sample_state)) = []"
proof -
  have c: "body phone_contact ''contact'' = Str ''+15551234567''"
    by (simp add: phone_contact_def incoming_def with_keys_def)
  have n: "\<not> zod_email sample_env ''+15551234567''"
    by (simp add: sample_env_def sample_email_def)
  from send_mail_contact_must_be_email [of sample_env phone_contact sample_state] c n
  have "status (fst (post_send_mail sample_env phone_contact sample_state)) = 400 \<and>
        (''contact'', Custom ''Invalid email format'')
          \<in> set (errors_of (fst (post_send_mail sample_env phone_contact sample_state))) \<and>
        snd (post_send_mail sample_env phone_contact sample_state) = sample_state"
    by blast
  with c n show ?thesis by (simp add: sample_state_def)
qed

section \<open>Deleting a project\<close>

text \<open>
  C10. GET /api/projects/delete checks the table name only. With a connection at
  hand, the response has status 400 exactly when \<open>type\<close> is missing; a request
  that gives \<open>type\<close> and no \<open>id\<close> sends the DELETE statement with the undefined
  value bound to \<open>id\<close>.
\<close>

theorem delete_validates_only_the_table:
  assumes "pool_up env" and "get_projects_delete env req s = (res, s')"
  shows "(status res = 400) = (\<not> truthy (query req ''type'')) \<and>
         (truthy (query req ''type'') \<and> query req ''id'' = Undefined \<longrightarrow>
            statements s' = statements s @
              [\<lparr>sql = ''DELETE FROM ?? WHERE id = ?'', params = [query req ''type'', Undefined]\<rparr>])"
  using assms
  by (auto simp: get_projects_delete_def get_route_def getConnection_def release_def select_try_def
        connection_query_def table_required_def query_failed_def respond_def Let_def
      split: sum.splits prod.splits if_splits)

lemma delete_without_id_run:
  "get_projects_delete sample_env delete_without_id sample_state =
     (respond 200 (StatusResults ''success'' (Header 0)),
      sample_state\<lparr>statements :=
        [\<lparr>sql = ''DELETE FROM ?? WHERE id = ?'', params = [Str ''projects'', Undefined]\<rparr>],
        db := (db sample_state)(''projects'' \<mapsto>
          [[(''id'', Str ''1''), (''pdf'', Str []), (''image'', Str ''1700000000001_a.png'')]])\<rparr>)"
  by (simp add: handler_defs sample_defs incoming_def Let_def)

theorem delete_validates_only_the_table_witness:
  "pool_up sample_env \<and> truthy (query delete_without_id ''type'') \<and>
   query delete_without_id ''id'' = Undefined \<and>
   status (fst (get_projects_delete sample_env delete_without_id sample_state)) = 200 \<and>
   statements (snd (get_projects_delete sample_env delete_without_id sample_state)) =
     [\<lparr>sql = ''DELETE FROM ?? WHERE id = ?'', params = [Str ''projects'', Undefined]\<rparr>]"
proof -
  have up: "pool_up sample_env" by (simp add: sample_env_def)
  have q: "truthy (query delete_without_id ''type'') \<and> query delete_without_id ''id'' = Undefined"
    by (simp add: delete_without_id_def incoming_def with_keys_def)
  from delete_validates_only_the_table [OF up delete_without_id_run] q up
  show ?thesis
    unfolding delete_without_id_run
    by (simp add: respond_def sample_state_def delete_without_id_def incoming_def with_keys_def)
qed

section \<open>Creating an app with an uploaded image\<close>

lemma single_image_upload:
  assumes "payload req = Multipart flds [p]" and "fieldname p = ''image''"
      and "fileFilter p = Inr True"
  shows "uploadImageOnly req s =
           Inr (req\<lparr>body := flds, req_file := Some \<lparr>part = p, filename = storage_filename p\<rparr>\<rparr>,
                s\<lparr>public_dir := public_dir s @ [storage_filename p]\<rparr>)"
  using assms by (simp add: uploadImageOnly_def filesLeft_def)

text \<open>
  C6. A create-app request with one image part that the filter accepts and with
  valid fields (non-empty title and content, a link that passes zod's URL check, a
  category of the enumeration), served with a connection at hand and an INSERT
  that the database accepts: the file is stored under \<open>public/\<close> as
  \<open><timestamp>_<originalname>\<close>, the \<open>image\<close> value of the inserted record is that
  same name, and the response is the 200 success shape.
\<close>

theorem create_app_stores_timestamped_name:
  assumes "payload req = Multipart flds [p]"
      and "fieldname p = ''image''" and "fileFilter p = Inr True"
      and "flds ''title'' = Str t" and "t \<noteq> []"
      and "flds ''content'' = Str c" and "c \<noteq> []"
      and "flds ''link'' = Str l" and "zod_url env l"
      and "flds ''category'' = Str ''d-only'' \<or> flds ''category'' = Str ''d-and-d''"
      and "pool_up env"
      and "mysql env
             \<lparr>sql = ''INSERT INTO ?? (title, content, link, category, image) VALUES (?, ?, ?, ?, ?)'',
              params = [flds ''table'', Str t, Str c, Str l, flds ''category'',
                        Str (decimal (arrival p) @ ''_'' @ originalname p)]\<rparr>
             (db s) = Inr (r, d)"
  shows "post_apps env req s =
           (respond 200 (StatusMessage ''success'' ''Project submitted successfully!''),
            s\<lparr>public_dir := public_dir s @ [decimal (arrival p) @ ''_'' @ originalname p],
              statements := statements s @
                [\<lparr>sql = ''INSERT INTO ?? (title, content, link, category, image) VALUES (?, ?, ?, ?, ?)'',
                  params = [flds ''table'', Str t, Str c, Str l, flds ''category'',
                            Str (decimal (arrival p) @ ''_'' @ originalname p)]\<rparr>],
              db := d\<rparr>)"
proof -
  let ?name = "decimal (arrival p) @ ''_'' @ originalname p"
  let ?req1 = "req\<lparr>body := flds, req_file := Some \<lparr>part = p, filename = storage_filename p\<rparr>\<rparr>"
  let ?s1 = "s\<lparr>public_dir := public_dir s @ [storage_filename p]\<rparr>"
  have name: "storage_filename p = ?name" by (simp add: storage_filename_def)
  have up: "uploadImageOnly req s = Inr (?req1, ?s1)"
    using assms(1-3) by (rule single_image_upload)
  have valid: "schema_issues env (apps_input ?req1) = []"
    using assms(4-10)
    by (auto simp: schema_issues_def apps_input_def no_keys_def z_string_def z_min1_def
          z_format_def z_enum_def name)
  have run: "post_apps_handler env ?req1 ?s1 =
      (respond 200 (StatusMessage ''success'' ''Project submitted successfully!''),
       s\<lparr>public_dir := public_dir s @ [?name],
         statements := statements s @
           [\<lparr>sql = ''INSERT INTO ?? (title, content, link, category, image) VALUES (?, ?, ?, ?, ?)'',
             params = [flds ''table'', Str t, Str c, Str l, flds ''category'', Str ?name]\<rparr>],
         db := d\<rparr>)"
    using assms(4,6,8,11,12) valid
    by (simp add: post_apps_handler_def apps_try_def schema_def z_object_def getConnection_def
          release_def connection_query_def apps_input_def no_keys_def name Let_def)
  show ?thesis
    by (simp add: post_apps_def route_with_def up run)
qed

lemma logo_accepted: "fileFilter logo_part = Inr True"
  by (simp add: upload_defs logo_part_def Let_def)

theorem create_app_stores_timestamped_name_witness:
  "fileFilter logo_part = Inr True \<and> pool_up sample_env \<and>
   fst (post_apps sample_env create_logo sample_state) =
     respond 200 (StatusMessage ''success'' ''Project submitted successfully!'') \<and>
   public_dir (snd (post_apps sample_env create_logo sample_state)) = [''1700000000123_logo.png''] \<and>
   map (\<lambda>row. column row ''image'')
     (the (db (snd (post_apps sample_env create_logo sample_state)) ''apps_demo'')) =
     [Str ''1700000000000_shop.png'', Str ''1700000000123_logo.png'']"
proof -
  let ?flds = "with_keys ((''table'', Str ''apps_demo'') # app_fields)"
  let ?stmt = "\<lparr>sql = ''INSERT INTO ?? (title, content, link, category, image) VALUES (?, ?, ?, ?, ?)'',
                params = [?flds ''table'', Str ''Shop'', Str ''A shop'', Str ''https://shop.example'',
                          ?flds ''category'',
                          Str (decimal (arrival logo_part) @ ''_'' @ originalname logo_part)]\<rparr>"
  let ?d = "(db sample_state)(''apps_demo'' \<mapsto>
              the (sample_db ''apps_demo'') @
              [[(''id'', Str ''2''), (''title'', Str ''Shop''), (''content'', Str ''A shop''),
                (''link'', Str ''https://shop.example''), (''category'', Str ''d-only''),
                (''image'', Str ''1700000000123_logo.png'')]])"
  have up: "pool_up sample_env" by (simp add: sample_env_def)
  have ins: "mysql sample_env ?stmt (db sample_state) = Inr (Header 1, ?d)"
    by (simp add: sample_defs decimal.simps digit_def)
  have "post_apps sample_env create_logo sample_state =
      (respond 200 (StatusMessage ''success'' ''Project submitted successfully!''),
       sample_state\<lparr>public_dir := public_dir sample_state @
                      [decimal (arrival logo_part) @ ''_'' @ originalname logo_part],
                    statements := statements sample_state @ [?stmt], db := ?d\<rparr>)"
  proof (rule create_app_stores_timestamped_name [where t = "''Shop''" and c = "''A shop''"
            and l = "''https://shop.example''" and r = "Header 1"])
    show "payload create_logo = Multipart ?flds [logo_part]"
      by (simp add: create_logo_def incoming_def)
    show "fieldname logo_part = ''image''" by (simp add: logo_part_def)
    show "fileFilter logo_part = Inr True" by (rule logo_accepted)
    show "?flds ''title'' = Str ''Shop''" by (simp add: with_keys_def app_fields_def)
    show "''Shop'' \<noteq> []" by simp
    show "?flds ''content'' = Str ''A shop''" by (simp add: with_keys_def app_fields_def)
    show "''A shop'' \<noteq> []" by simp
    show "?flds ''link'' = Str ''https://shop.example''" by (simp add: with_keys_def app_fields_def)
    show "zod_url sample_env ''https://shop.example''" by (simp add: sample_env_def sample_url_def)
    show "?flds ''category'' = Str ''d-only'' \<or> ?flds ''category'' = Str ''d-and-d''"
      by (simp add: with_keys_def app_fields_def)
    show "pool_up sample_env" by (rule up)
    show "mysql sample_env ?stmt (db sample_state) = Inr (Header 1, ?d)" by (rule ins)
  qed
  then show ?thesis
    using up logo_accepted
    by (simp add: sample_state_def sample_db_def logo_part_def decimal.simps digit_def column_def)
qed

section \<open>Login\<close>

lemma login_try_valid:
  assumes "body req ''email'' = Str e" and "e \<noteq> []"
      and "body req ''password'' = Str p" and "p \<noteq> []"
      and "mysql env \<lparr>sql = ''SELECT * FROM users WHERE email = ?'', params = [Str e]\<rparr> (db s)
             = Inr (found, d)"
  shows "fst (login_try env req s) =
     (case first_row found of
        None \<Rightarrow> Inr (respond 400 (StatusErrors ''fail'' [(''email'', Custom ''User does not exist'')]))
      | Some user \<Rightarrow>
          (case bcrypt_compare env (Str p) (column user ''password'') of
             Inl f \<Rightarrow> Inl (Failure f)
           | Inr isPasswordValid \<Rightarrow>
               if \<not> isPasswordValid
               then Inr (respond 400 (StatusErrors ''fail'' [(''password'', Custom ''Incorrect password'')]))
               else (case jwt_sign env
                            (Obj [(''id'', column user ''id''), (''email'', column user ''email'')]) ''1h'' of
                       Inl f \<Rightarrow> Inl (Failure f)
                     | Inr token \<Rightarrow>
                         Inr (respond 200
                                (StatusMessageToken ''success'' ''Successfully Logged In!'' token)))))"
  using assms
  by (simp add: login_try_def loginSchema_def loginSchema_issues_def z_object_def z_string_def
        z_min1_def connection_query_def Let_def split: option.splits sum.splits)

lemma post_login_response:
  assumes "pool_up env"
  shows "fst (post_login env req s) =
           (case fst (login_try env req (s\<lparr>leased := Suc (leased s)\<rparr>)) of
              Inl e \<Rightarrow> catch_block e | Inr res \<Rightarrow> res)"
  using assms
  by (simp add: post_login_def getConnection_def split: prod.splits sum.splits)

lemma token_of_catch_block: "token_of (catch_block e) = None"
  by (cases e) (simp_all add: catch_block_def token_of_def respond_def)

lemma token_of_errors: "token_of (respond c (StatusErrors st errors)) = None"
  by (simp add: token_of_def respond_def)

lemma token_of_token: "token_of (respond c (StatusMessageToken st m token)) = Some token"
  by (simp add: token_of_def respond_def)

lemma login_schema_failure:
  assumes "pool_up env" and "loginSchema_issues (body req) \<noteq> []"
  shows "post_login env req s =
           (respond 400 (StatusErrors ''fail'' (loginSchema_issues (body req))), s)"
  using assms
  by (simp add: post_login_def getConnection_def release_def login_try_def loginSchema_def
        z_object_def catch_block_def)

lemma login_token_origin:
  assumes "token_of (fst (post_login env req s)) = Some token"
  shows "loginSchema_issues (body req) = [] \<and>
         fst (post_login env req s) =
           respond 200 (StatusMessageToken ''success'' ''Successfully Logged In!'' token) \<and>
         (\<exists>found d user.
            mysql env \<lparr>sql = ''SELECT * FROM users WHERE email = ?'', params = [body req ''email'']\<rparr>
              (db s) = Inr (found, d) \<and>
            first_row found = Some user \<and>
            bcrypt_compare env (body req ''password'') (column user ''password'') = Inr True \<and>
            jwt_sign env (Obj [(''id'', column user ''id''), (''email'', column user ''email'')]) ''1h''
              = Inr token)"
  using assms
  by (auto simp: post_login_def getConnection_def login_try_def loginSchema_def z_object_def
        connection_query_def Let_def token_of_catch_block token_of_errors token_of_token
      split: sum.splits prod.splits option.splits if_splits)

lemma login_valid_outcomes:
  assumes "pool_up env"
      and "body req ''email'' = Str e" and "e \<noteq> []"
      and "body req ''password'' = Str p" and "p \<noteq> []"
      and "mysql env \<lparr>sql = ''SELECT * FROM users WHERE email = ?'', params = [Str e]\<rparr> (db s)
             = Inr (found, d)"
  shows "(first_row found = None \<longrightarrow>
            fst (post_login env req s) =
              respond 400 (StatusErrors ''fail'' [(''email'', Custom ''User does not exist'')])) \<and>
         (\<forall>user. first_row found = Some user \<and>
                 bcrypt_compare env (Str p) (column user ''password'') = Inr False \<longrightarrow>
            fst (post_login env req s) =
              respond 400 (StatusErrors ''fail'' [(''password'', Custom ''Incorrect password'')])) \<and>
         (\<forall>t. (token_of (fst (post_login env req s)) = Some t) =
            (\<exists>user. first_row found = Some user \<and>
                    bcrypt_compare env (Str p) (column user ''password'') = Inr True \<and>
                    jwt_sign env (Obj [(''id'', column user ''id''), (''email'', column user ''email'')])
                      ''1h'' = Inr t))"
proof -
  have db_same: "db (s\<lparr>leased := Suc (leased s)\<rparr>) = db s" by simp
  note inner = login_try_valid [OF assms(2-5), of env "s\<lparr>leased := Suc (leased s)\<rparr>" found d,
                                 unfolded db_same, OF assms(6)]
  note outer = post_login_response [OF assms(1), of req s]
  show ?thesis
    unfolding outer inner
    by (auto simp: token_of_catch_block token_of_errors token_of_token
             split: option.splits sum.splits)
qed

text \<open>
  C7, as amended. A login response carries a token only if the body passes the
  login schema, the lookup by its email finds a row, the password verifies
  against the hash of that row and signing succeeds; the response is then the 200
  success shape. With a connection at hand, a body that fails the schema is
  answered 400 with the issues of the schema and nothing else happens: no lookup,
  whether or not the email exists. With a connection at hand, a body that passes
  the schema and a lookup that the database answers: no row gives 400 with
  "User does not exist" on \<open>email\<close>; a row whose hash the password does not
  verify against gives 400 with "Incorrect password" on \<open>password\<close>; and the
  response carries a token exactly when a row is found, the password verifies
  and signing succeeds.
\<close>

theorem login_token_iff_credentials:
  "(token_of (fst (post_login env req s)) = Some token \<longrightarrow>
      loginSchema_issues (body req) = [] \<and>
      fst (post_login env req s) =
        respond 200 (StatusMessageToken ''success'' ''Successfully Logged In!'' token) \<and>
      (\<exists>found d user.
         mysql env \<lparr>sql = ''SELECT * FROM users WHERE email = ?'', params = [body req ''email'']\<rparr>
           (db s) = Inr (found, d) \<and>
         first_row found = Some user \<and>
         bcrypt_compare env (body req ''password'') (column user ''password'') = Inr True \<and>
         jwt_sign env (Obj [(''id'', column user ''id''), (''email'', column user ''email'')]) ''1h''
           = Inr token)) \<and>
   (pool_up env \<and> loginSchema_issues (body req) \<noteq> [] \<longrightarrow>
      post_login env req s =
        (respond 400 (StatusErrors ''fail'' (loginSchema_issues (body req))), s)) \<and>
   (pool_up env \<and> body req ''email'' = Str e \<and> e \<noteq> [] \<and>
    body req ''password'' = Str p \<and> p \<noteq> [] \<and>
    mysql env \<lparr>sql = ''SELECT * FROM users WHERE email = ?'', params = [Str e]\<rparr> (db s)
      = Inr (found, d) \<longrightarrow>
      (first_row found = None \<longrightarrow>
         fst (post_login env req s) =
           respond 400 (StatusErrors ''fail'' [(''email'', Custom ''User does not exist'')])) \<and>
      (\<forall>user. first_row found = Some user \<and>
              bcrypt_compare env (Str p) (column user ''password'') = Inr False \<longrightarrow>
         fst (post_login env req s) =
           respond 400 (StatusErrors ''fail'' [(''password'', Custom ''Incorrect password'')])) \<and>
      (\<forall>t. (token_of (fst (post_login env req s)) = Some t) =
         (\<exists>user. first_row found = Some user \<and>
                 bcrypt_compare env (Str p) (column user ''password'') = Inr True \<and>
                 jwt_sign env (Obj [(''id'', column user ''id''), (''email'', column user ''email'')])
                   ''1h'' = Inr t)))"
proof (intro conjI impI)
  assume "token_of (fst (post_login env req s)) = Some token"
  from login_token_origin [OF this]
  show "loginSchema_issues (body req) = []"
    and "fst (post_login env req s) =
           respond 200 (StatusMessageToken ''success'' ''Successfully Logged In!'' token)"
    and "\<exists>found d user.
           mysql env \<lparr>sql = ''SELECT * FROM users WHERE email = ?'', params = [body req ''email'']\<rparr>
             (db s) = Inr (found, d) \<and>
           first_row found = Some user \<and>
           bcrypt_compare env (body req ''password'') (column user ''password'') = Inr True \<and>
           jwt_sign env (Obj [(''id'', column user ''id''), (''email'', column user ''email'')]) ''1h''
             = Inr token"
    by blast+
next
  assume "pool_up env \<and> loginSchema_issues (body req) \<noteq> []"
  then show "post_login env req s =
      (respond 400 (StatusErrors ''fail'' (loginSchema_issues (body req))), s)"
    using login_schema_failure [of env req s] by blast
next
  assume a: "pool_up env \<and> body req ''email'' = Str e \<and> e \<noteq> [] \<and>
    body req ''password'' = Str p \<and> p \<noteq> [] \<and>
    mysql env \<lparr>sql = ''SELECT * FROM users WHERE email = ?'', params = [Str e]\<rparr> (db s)
      = Inr (found, d)"
  then have all: "(first_row found = None \<longrightarrow>
            fst (post_login env req s) =
              respond 400 (StatusErrors ''fail'' [(''email'', Custom ''User does not exist'')])) \<and>
         (\<forall>user. first_row found = Some user \<and>
                 bcrypt_compare env (Str p) (column user ''password'') = Inr False \<longrightarrow>
            fst (post_login env req s) =
              respond 400 (StatusErrors ''fail'' [(''password'', Custom ''Incorrect password'')])) \<and>
         (\<forall>t. (token_of (fst (post_login env req s)) = Some t) =
            (\<exists>user. first_row found = Some user \<and>
                    bcrypt_compare env (Str p) (column user ''password'') = Inr True \<and>
                    jwt_sign env (Obj [(''id'', column user ''id''), (''email'', column user ''email'')])
                      ''1h'' = Inr t))"
    using login_valid_outcomes [of env req e p s found d] by blast
  {
    assume "first_row found = None"
    with all show "fst (post_login env req s) =
        respond 400 (StatusErrors ''fail'' [(''email'', Custom ''User does not exist'')])"
      by blast
  }
  from all
  show "\<forall>user. first_row found = Some user \<and>
              bcrypt_compare env (Str p) (column user ''password'') = Inr False \<longrightarrow>
         fst (post_login env req s) =
           respond 400 (StatusErrors ''fail'' [(''password'', Custom ''Incorrect password'')])"
    by blast
  from all
  show "\<forall>t. (token_of (fst (post_login env req s)) = Some t) =
         (\<exists>user. first_row found = Some user \<and>
                 bcrypt_compare env (Str p) (column user ''password'') = Inr True \<and>
                 jwt_sign env (Obj [(''id'', column user ''id''), (''email'', column user ''email'')])
                   ''1h'' = Inr t)"
    by blast
qed

text \<open>
  The claim as stated fails for a request with an unknown email and an empty
  password: the schema refuses it before the lookup, and the response names the
  password, not "User does not exist".
\<close>

theorem login_unknown_email_counterexample:
  "map_sum id fst
     (mysql sample_env
        \<lparr>sql = ''SELECT * FROM users WHERE email = ?'', params = [body ghost_login ''email'']\<rparr>
        (db sample_state)) = Inr (Rows []) \<and>
   fst (post_login sample_env ghost_login sample_state) =
     respond 400 (StatusErrors ''fail'' [(''password'', Custom ''Password is required'')]) \<and>
   (''email'', Custom ''User does not exist'')
     \<notin> set (errors_of (fst (post_login sample_env ghost_login sample_state)))"
  by (simp add: handler_defs schema_defs sample_defs incoming_def errors_of_def Let_def)

theorem login_token_iff_credentials_witness:
  "pool_up sample_env \<and>
   body admin_login ''email'' = Str ''admin@abcd.graphics'' \<and>
   body admin_login ''password'' = Str ''s3cret'' \<and>
   first_row (Rows [admin_row]) = Some admin_row \<and>
   bcrypt_compare sample_env (Str ''s3cret'') (column admin_row ''password'') = Inr True \<and>
   token_of (fst (post_login sample_env admin_login sample_state)) = Some ''token/admin@abcd.graphics/1h'' \<and>
   loginSchema_issues (body ghost_login) \<noteq> [] \<and>
   post_login sample_env ghost_login sample_state =
     (respond 400 (StatusErrors ''fail'' (loginSchema_issues (body ghost_login))), sample_state)"
proof -
  have up: "pool_up sample_env" by (simp add: sample_env_def)
  have e: "body admin_login ''email'' = Str ''admin@abcd.graphics''"
    by (simp add: admin_login_def incoming_def with_keys_def)
  have p: "body admin_login ''password'' = Str ''s3cret''"
    by (simp add: admin_login_def incoming_def with_keys_def)
  have look: "mysql sample_env
      \<lparr>sql = ''SELECT * FROM users WHERE email = ?'', params = [Str ''admin@abcd.graphics'']\<rparr>
      (db sample_state) = Inr (Rows [admin_row], sample_db)"
    by (simp add: sample_defs column_def)
  have row: "first_row (Rows [admin_row]) = Some admin_row" by simp
  have ok: "bcrypt_compare sample_env (Str ''s3cret'') (column admin_row ''password'') = Inr True"
    by (simp add: sample_env_def sample_bcrypt_def admin_row_def column_def)
  have sign: "jwt_sign sample_env
      (Obj [(''id'', column admin_row ''id''), (''email'', column admin_row ''email'')]) ''1h''
      = Inr ''token/admin@abcd.graphics/1h''"
    by (simp add: sample_env_def sample_jwt_def admin_row_def column_def)
  have bad: "loginSchema_issues (body ghost_login) \<noteq> []"
    by (simp add: ghost_login_def incoming_def with_keys_def schema_defs)
  from login_token_iff_credentials
         [of sample_env admin_login sample_state "''token/admin@abcd.graphics/1h''"
             "''admin@abcd.graphics''" "''s3cret''" "Rows [admin_row]" sample_db]
       up e p look row ok sign
  have tok: "token_of (fst (post_login sample_env admin_login sample_state))
          = Some ''token/admin@abcd.graphics/1h''"
    by auto
  from login_token_iff_credentials [of sample_env ghost_login sample_state] up bad
  have rej: "post_login sample_env ghost_login sample_state =
     (respond 400 (StatusErrors ''fail'' (loginSchema_issues (body ghost_login))), sample_state)"
    by blast
  from up e p row ok tok bad rej show ?thesis by blast
qed

section \<open>Updating a row that does not exist\<close>

text \<open>Whatever number of rows the UPDATE affected, the handler answers with the
  success response: the callback that looks at \<open>affectedRows\<close> is never called.\<close>

lemma edit_apps_success_whatever_the_rows:
  assumes "pool_up env" and "editSchema_issues env (edit_apps_input req) = []"
      and "mysql env
             \<lparr>sql = ''UPDATE ?? SET title = ?, content = ?, link = ?, category = ?, image = ? WHERE id = ?'',
              params = [body req ''table'', edit_apps_input req ''title'',
                        edit_apps_input req ''content'', edit_apps_input req ''link'',
                        edit_apps_input req ''category'', edit_apps_input req ''image'',
                        edit_apps_input req ''id'']\<rparr>
             (db s) = Inr (Header n, d)"
  shows "fst (post_edit_apps_handler env req s) =
           respond 200 (StatusMessage ''success'' ''Project updated successfully!'')"
  using assms
  by (simp add: post_edit_apps_handler_def edit_apps_try_def editSchema_def z_object_def
        getConnection_def connection_query_def Let_def)

text \<open>
  C1 (the code differs). An edit-app request with valid fields, an \<open>image\<close> string
  and the id 999, which no row of \<open>apps_demo\<close> has: the UPDATE affects no row, the
  callback of the handler would answer 404 "Record not found", and the response
  is the 200 success shape.
\<close>

theorem edit_missing_row_answers_success:
  "filter (where_id (Str ''999'')) (the (db sample_state ''apps_demo'')) = [] \<and>
   map_sum id fst
     (mysql sample_env
        \<lparr>sql = ''UPDATE ?? SET title = ?, content = ?, link = ?, category = ?, image = ? WHERE id = ?'',
         params = [Str ''apps_demo'', Str ''Shop'', Str ''A shop'', Str ''https://shop.example'',
                   Str ''d-only'', Str ''1700000000000_shop.png'', Str ''999'']\<rparr>
        (db sample_state)) = Inr (Header 0) \<and>
   update_callback None (Header 0) = Some (respond 404 (ErrorOnly ''Record not found'')) \<and>
   fst (post_edit_apps sample_env edit_missing_row sample_state) =
     respond 200 (StatusMessage ''success'' ''Project updated successfully!'') \<and>
   statements (snd (post_edit_apps sample_env edit_missing_row sample_state)) =
     [\<lparr>sql = ''UPDATE ?? SET title = ?, content = ?, link = ?, category = ?, image = ? WHERE id = ?'',
       params = [Str ''apps_demo'', Str ''Shop'', Str ''A shop'', Str ''https://shop.example'',
                 Str ''d-only'', Str ''1700000000000_shop.png'', Str ''999'']\<rparr>]"
  by (simp add: handler_defs schema_defs sample_defs incoming_def checkImageType_def
        update_callback_def Let_def)

section \<open>A missing table name\<close>

text \<open>The read and delete routes refuse a missing table name before any
  statement.\<close>

lemma get_routes_require_table:
  assumes "pool_up env"
  shows "\<not> truthy (query req ''db'') \<Longrightarrow> get_apps env req s = (table_required, s)"
    and "\<not> truthy (query req ''db'') \<Longrightarrow> get_projects env req s = (table_required, s)"
    and "\<not> truthy (query req ''db'') \<Longrightarrow> get_edit_projects env req s = (table_required, s)"
    and "\<not> truthy (query req ''db'') \<Longrightarrow>
           get_edit_apps env req s =
             (respond 400 (StatusError ''fail'' ''Table or ID name is required''), s)"
    and "\<not> truthy (query req ''type'') \<Longrightarrow> get_projects_delete env req s = (table_required, s)"
  using assms
  by (simp_all add: get_apps_def get_projects_def get_edit_projects_def get_edit_apps_def
        get_projects_delete_def get_route_def getConnection_def release_def Let_def)

text \<open>The create handler does not look at the table name: with valid fields and
  a connection at hand it sends the INSERT, whatever \<open>table\<close> is.\<close>

lemma create_app_sends_insert_for_any_table:
  assumes "pool_up env" and "schema_issues env (apps_input req) = []"
  shows "statements (snd (post_apps_handler env req s)) =
           statements s @
             [\<lparr>sql = ''INSERT INTO ?? (title, content, link, category, image) VALUES (?, ?, ?, ?, ?)'',
               params = [body req ''table'', apps_input req ''title'', apps_input req ''content'',
                         apps_input req ''link'', apps_input req ''category'',
                         apps_input req ''image'']\<rparr>] \<and>
         status (fst (post_apps_handler env req s)) \<noteq> 400"
  using assms
  by (auto simp: post_apps_handler_def apps_try_def schema_def z_object_def getConnection_def
        release_def connection_query_def catch_block_def respond_def Let_def
      split: sum.splits prod.splits)

text \<open>
  C2 (the code differs). A create-app request with valid fields, an accepted
  image and no \<open>table\<close> field: the handler does not answer 400; it sends the
  INSERT with the undefined value as table name, the database refuses it, and the
  response is 500.
\<close>

theorem create_without_table_sends_insert:
  "payload create_without_table = Multipart (with_keys app_fields) [logo_part] \<and>
   with_keys app_fields ''table'' = Undefined \<and>
   fst (post_apps sample_env create_without_table sample_state) =
     respond 500 (StatusMessage ''error'' ''An unexpected error occurred'') \<and>
   statements (snd (post_apps sample_env create_without_table sample_state)) =
     [\<lparr>sql = ''INSERT INTO ?? (title, content, link, category, image) VALUES (?, ?, ?, ?, ?)'',
       params = [Undefined, Str ''Shop'', Str ''A shop'', Str ''https://shop.example'',
                 Str ''d-only'', Str ''1700000000123_logo.png'']\<rparr>]"
  by (simp add: handler_defs schema_defs upload_defs sample_defs Let_def)

section \<open>The upload filter\<close>

text \<open>Every file the allow-list of the spec allows is accepted.\<close>

lemma allow_listed_is_accepted:
  assumes "spec_allowed_upload f"
  shows "fileFilter f = Inr True"
  using assms
  by (auto simp: spec_allowed_upload_def spec_extension_listed_def spec_mimetype_listed_def
        fileFilter_def regex_test_def filetypes_def Let_def)

text \<open>A part that the filter refuses aborts the upload, whatever else the request
  holds.\<close>

lemma refused_part_aborts:
  assumes "p \<in> set parts" and "fileFilter p = Inl e"
  shows "\<exists>err. multer_files limits parts = Inl err"
  using assms
proof (induction parts arbitrary: limits)
  case Nil
  then show ?case by simp
next
  case (Cons a parts)
  show ?case
  proof (cases "a = p")
    case True
    with Cons.prems show ?thesis by simp
  next
    case False
    with Cons.prems have "p \<in> set parts" by simp
    from Cons.IH [OF this Cons.prems(2)]
    obtain err where "multer_files (take_one limits (fieldname a)) parts = Inl err" by blast
    then show ?thesis by (simp split: sum.splits)
  qed
qed

text \<open>Such a request stores no file, sends no statement, and is answered by the
  error-handling middleware.\<close>

lemma refused_upload_changes_nothing:
  assumes "payload req = Multipart flds parts" and "p \<in> set parts" and "fileFilter p = Inl e"
  shows "post_apps env req s = (respond 500 (StatusMessage ''error'' ''Internal Server Error''), s)"
    and "post_projects env req s = (respond 500 (StatusMessage ''error'' ''Internal Server Error''), s)"
proof -
  from refused_part_aborts [OF assms(2,3)]
  obtain e1 where "multer_files [(''image'', 1)] parts = Inl e1" by blast
  with assms(1)
  show "post_apps env req s = (respond 500 (StatusMessage ''error'' ''Internal Server Error''), s)"
    by (simp add: post_apps_def route_with_def uploadImageOnly_def global_error_handler_def)
  from refused_part_aborts [OF assms(2,3)]
  obtain e2 where "multer_files [(''image'', 1), (''pdfFile'', 1)] parts = Inl e2" by blast
  with assms(1)
  show "post_projects env req s = (respond 500 (StatusMessage ''error'' ''Internal Server Error''), s)"
    by (simp add: post_projects_def route_with_def upload_def global_error_handler_def)
qed

text \<open>
  C4 (the code differs). The file \<open>installer.pngexe\<close> declared as
  \<open>application/x-pngexe\<close>: neither its extension nor its MIME type is on the
  allow-list, yet both contain \<open>png\<close>, the filter accepts the file, and the
  create-app request stores it under \<open>public/\<close> and inserts a record for it.
\<close>

theorem filter_accepts_unlisted_type:
  "toLowerCase (path_extname (originalname disguised_part)) = ''.pngexe'' \<and>
   \<not> spec_extension_listed disguised_part \<and>
   \<not> spec_mimetype_listed disguised_part \<and>
   fileFilter disguised_part = Inr True \<and>
   fst (post_apps sample_env create_disguised sample_state) =
     respond 200 (StatusMessage ''success'' ''Project submitted successfully!'') \<and>
   public_dir (snd (post_apps sample_env create_disguised sample_state)) =
     [''1700000000456_installer.pngexe''] \<and>
   map (\<lambda>row. column row ''image'')
     (the (db (snd (post_apps sample_env create_disguised sample_state)) ''apps_demo'')) =
     [Str ''1700000000000_shop.png'', Str ''1700000000456_installer.pngexe'']"
  by (simp add: handler_defs schema_defs upload_defs sample_defs spec_extension_listed_def
        spec_mimetype_listed_def Let_def)

section \<open>Releasing the connection\<close>

text \<open>The routes that read \<open>req.body\<close> and \<open>req.query\<close> only give the connection
  back on every path.\<close>

lemma connection_released:
  "leased (snd (post_login env req s)) = leased s"
  "leased (snd (post_apps_handler env req s)) = leased s"
  "leased (snd (post_edit_apps_handler env req s)) = leased s"
  "leased (snd (get_apps env req s)) = leased s"
  "leased (snd (get_edit_apps env req s)) = leased s"
  "leased (snd (get_projects env req s)) = leased s"
  "leased (snd (get_edit_projects env req s)) = leased s"
  "leased (snd (get_projects_delete env req s)) = leased s"
  by (auto simp: post_login_def login_try_def post_apps_handler_def apps_try_def
        post_edit_apps_handler_def edit_apps_try_def get_apps_def get_edit_apps_def
        get_projects_def get_edit_projects_def get_projects_delete_def get_route_def
        select_try_def getConnection_def release_def connection_query_def Let_def
      split: sum.splits prod.splits option.splits if_splits)

text \<open>The project routes give it back when \<open>req.files\<close> is defined, and keep it
  when it is not.\<close>

lemma project_routes_release_with_files:
  assumes "req_files req = Some fs"
  shows "leased (snd (post_projects_handler env req s)) = leased s"
    and "leased (snd (post_edit_projects_handler env req s)) = leased s"
  using assms
  by (auto simp: post_projects_handler_def projects_try_def post_edit_projects_handler_def
        edit_projects_try_def getConnection_def release_def connection_query_def Let_def
      split: sum.splits prod.splits option.splits if_splits)

lemma project_routes_leak_without_files:
  assumes "pool_up env" and "req_files req = None"
  shows "leased (snd (post_projects_handler env req s)) = Suc (leased s)"
    and "leased (snd (post_edit_projects_handler env req s)) = Suc (leased s)"
  using assms
  by (simp_all add: post_projects_handler_def post_edit_projects_handler_def getConnection_def)

text \<open>
  C5 (the code differs). POST /api/projects with a JSON body: multer leaves
  \<open>req.files\<close> undefined, the handler takes a connection, throws on
  \<open>req.files["image"]\<close> outside its \<open>try ... finally\<close>, answers 500 and ends
  holding the connection.
\<close>

theorem json_project_request_keeps_connection:
  "leased sample_state = 0 \<and>
   fst (post_projects sample_env json_project_request sample_state) =
     respond 500 (StatusMessage ''error'' ''An unexpected error occurred'') \<and>
   statements (snd (post_projects sample_env json_project_request sample_state)) = [] \<and>
   leased (snd (post_projects sample_env json_project_request sample_state)) = 1"
  by (simp add: handler_defs upload_defs sample_defs Let_def)

end
